theory Spec2Isabelle
  imports Complex_Main "HOL-Library.Word"
begin

section \<open>Strings, numbers and bytes of the host language\<close>

text \<open>
  The bridge service is TypeScript. Its strings are modelled as \<^typ>\<open>string\<close>, each
  character read as the code unit U+0000..U+00FF of the same number; the built-in string
  operations below are the ECMAScript ones on that range. A thrown value is an
  \<open>Error\<close> object, kept as its message; a function that can throw returns
  \<open>jserror + 'a\<close> with \<open>Inl\<close> for the throw.
\<close>

datatype jserror = Error (errorMessage: string)

text \<open>
  The interpolation \<^verbatim>\<open>${(error as Error).message || error}\<close>: the message when it is
  not empty, else the error object converted to a string.
\<close>

definition messageOrError :: "jserror \<Rightarrow> string" where
  "messageOrError e = (if errorMessage e = [] then ''Error'' else errorMessage e)"

text \<open>
  A \<open>number\<close> is a double. Only its sign, its zero test and the two special values
  matter to the code modelled here, so a finite double is kept as the rational it denotes
  (\<open>-0\<close> and \<open>0\<close> both as \<open>Finite 0\<close>).
\<close>

datatype number = NaN | NegInfinity | PosInfinity | Finite rat

text \<open>\<^verbatim>\<open>!n\<close> on a number.\<close>

definition numberFalsy :: "number \<Rightarrow> bool" where
  "numberFalsy n = (n = NaN \<or> n = Finite 0)"

text \<open>\<^verbatim>\<open>n <= 0\<close> on a number; every comparison with \<open>NaN\<close> is false.\<close>

fun numberLeZero :: "number \<Rightarrow> bool" where
  "numberLeZero NaN = False"
| "numberLeZero NegInfinity = True"
| "numberLeZero PosInfinity = False"
| "numberLeZero (Finite r) = (r \<le> 0)"

type_synonym byte = "8 word"

text \<open>The character classes \<^verbatim>\<open>[0-9a-f]\<close> and \<^verbatim>\<open>[0-9a-fA-F]\<close>, by code unit.\<close>

definition isLowerHexChar :: "char \<Rightarrow> bool" where
  "isLowerHexChar c =
     (let n = (of_char c :: nat)
      in (48 \<le> n \<and> n \<le> 57) \<or> (97 \<le> n \<and> n \<le> 102))"

definition isHexChar :: "char \<Rightarrow> bool" where
  "isHexChar c =
     (let n = (of_char c :: nat)
      in (48 \<le> n \<and> n \<le> 57) \<or> (97 \<le> n \<and> n \<le> 102) \<or> (65 \<le> n \<and> n \<le> 70))"

text \<open>
  \<open>String.prototype.toLowerCase\<close> on U+0000..U+00FF: the letters A-Z, and the
  Latin-1 capitals U+00C0..U+00DE except the multiplication sign U+00D7, move up by 32.
\<close>

definition lowerChar :: "char \<Rightarrow> char" where
  "lowerChar c =
     (let n = (of_char c :: nat)
      in if (65 \<le> n \<and> n \<le> 90) \<or> (192 \<le> n \<and> n \<le> 222 \<and> n \<noteq> 215)
         then char_of (n + 32) else c)"

definition toLowerCase :: "string \<Rightarrow> string" where
  "toLowerCase s = map lowerChar s"

text \<open>\<^verbatim>\<open>s.startsWith("0x")\<close> and \<^verbatim>\<open>s.replace(/^0x/, "")\<close>.\<close>

fun startsWith0x :: "string \<Rightarrow> bool" where
  "startsWith0x (a # b # rest) = (a = CHR ''0'' \<and> b = CHR ''x'')"
| "startsWith0x _ = False"

fun strip0x :: "string \<Rightarrow> string" where
  "strip0x (a # b # rest) = (if a = CHR ''0'' \<and> b = CHR ''x'' then rest else a # b # rest)"
| "strip0x s = s"

text \<open>
  \<open>parseInt(s, 16)\<close> on a string of hexadecimal digits: the value of a digit, and the
  number read from the longest prefix of digits (\<open>None\<close> is \<open>NaN\<close>). The source only
  calls it on two-character slices of a string already matched against
  \<^verbatim>\<open>/^[0-9a-f]*$/\<close>, so sign, white space and a \<open>0x\<close> prefix are left out.
\<close>

definition hexDigitValue :: "char \<Rightarrow> nat option" where
  "hexDigitValue c =
     (let n = (of_char c :: nat)
      in if 48 \<le> n \<and> n \<le> 57 then Some (n - 48)
         else if 97 \<le> n \<and> n \<le> 102 then Some (n - 87)
         else if 65 \<le> n \<and> n \<le> 70 then Some (n - 55)
         else None)"

fun parseHexDigits :: "nat \<Rightarrow> string \<Rightarrow> nat" where
  "parseHexDigits acc [] = acc"
| "parseHexDigits acc (c # cs) =
     (case hexDigitValue c of
        None \<Rightarrow> acc
      | Some d \<Rightarrow> parseHexDigits (16 * acc + d) cs)"

definition parseInt16 :: "string \<Rightarrow> nat option" where
  "parseInt16 s =
     (case s of
        [] \<Rightarrow> None
      | c # cs \<Rightarrow> (case hexDigitValue c of None \<Rightarrow> None | Some d \<Rightarrow> Some (parseHexDigits 0 s)))"

text \<open>
  A store into a \<open>Uint8Array\<close> keeps the value modulo 256, and \<open>NaN\<close> as 0.
\<close>

definition toUint8 :: "nat option \<Rightarrow> byte" where
  "toUint8 v = (case v of None \<Rightarrow> 0 | Some n \<Rightarrow> of_nat n)"

text \<open>
  \<open>new TextEncoder().encode(s)\<close>: the UTF-8 encoding, one byte below U+0080 and two
  bytes from U+0080 to U+00FF.
\<close>

definition utf8Char :: "char \<Rightarrow> byte list" where
  "utf8Char c =
     (let n = (of_char c :: nat)
      in if n < 128 then [of_nat n]
         else [of_nat (192 + n div 64), of_nat (128 + n mod 64)])"

definition textEncode :: "string \<Rightarrow> byte list" where
  "textEncode s = concat (map utf8Char s)"

section \<open>The destination-chain encoding of \<open>StellarBridgeService\<close>\<close>

text \<open>
  The loop of \<open>hexToBytes\<close>: \<open>out[i / 2] = parseInt(s.slice(i, i + 2), 16)\<close> for
  \<open>i = 0, 2, 4, ...\<close> below the length. A last single character would be stored at
  index \<open>out.length\<close>, which a typed array ignores.
\<close>

fun hexPairs :: "string \<Rightarrow> byte list" where
  "hexPairs (a # b # rest) = toUint8 (parseInt16 [a, b]) # hexPairs rest"
| "hexPairs _ = []"

definition hexToBytes :: "string \<Rightarrow> jserror + byte list" where
  "hexToBytes hex =
     (let s = strip0x (toLowerCase hex)
      in if \<not> list_all isLowerHexChar s \<or> length s mod 2 \<noteq> 0
         then Inl (Error ''Invalid hex for dest-chain'')
         else Inr (hexPairs s))"

text \<open>
  \<open>toBytes\<close>. Its argument has the type \<open>string\<close>, so the \<open>typeof\<close> guard never
  throws. The test \<^verbatim>\<open>/^[0-9a-fA-F]+$/\<close> is on the string without its \<open>0x\<close> prefix; a
  throw of \<open>hexToBytes\<close> is caught and falls through to the UTF-8 encoding.
\<close>

definition toBytes :: "string \<Rightarrow> jserror + byte list" where
  "toBytes val =
     (if startsWith0x val \<or> (strip0x val \<noteq> [] \<and> list_all isHexChar (strip0x val))
      then (case hexToBytes val of
              Inr out \<Rightarrow> Inr out
            | Inl e \<Rightarrow> Inr (textEncode val))
      else Inr (textEncode val))"

section \<open>Requests, configuration and the static tables\<close>

record BridgeParams =
  userAddress :: string
  fromToken :: string
  destToken :: string
  amount :: number
  destChain :: string
  recipientAddress :: string

record BridgeConfig =
  contractId :: string
  network :: string
  rpcUrl :: string
  networkPassphrase :: string

definition getBridgeConfig :: "string \<Rightarrow> BridgeConfig" where
  "getBridgeConfig net =
     (let isTestnet = (net \<noteq> ''stellar-mainnet'')
      in \<lparr> contractId = ''CDTA5IYGUGRI4PAGXJL7TPBEIC3EZY6V23ILF5EDVXFVLCGGMVOK4CRL'',
           network = (if isTestnet then ''testnet'' else ''mainnet''),
           rpcUrl = (if isTestnet then ''https://soroban-testnet.stellar.org''
                     else ''https://soroban-mainnet.stellar.org''),
           networkPassphrase = (if isTestnet then ''Test SDF Network ; September 2015''
                                else ''Public Global Stellar Network ; September 2015'') \<rparr>)"

text \<open>
  The two lookups in an object literal, with the fallback of \<open>||\<close> for a missing key.
  A key that the literal does not have but \<open>Object.prototype\<close> has is found there:
  the lookup then yields that member, a function or an object, which is truthy and is
  returned in place of a string.
\<close>

datatype jsvalue = Str string | Inherited string

definition objectPrototypeKeys :: "string list" where
  "objectPrototypeKeys =
     [''constructor'', ''__defineGetter__'', ''__defineSetter__'', ''hasOwnProperty'',
      ''__lookupGetter__'', ''__lookupSetter__'', ''isPrototypeOf'',
      ''propertyIsEnumerable'', ''toString'', ''valueOf'', ''__proto__'',
      ''toLocaleString'']"

definition getChainName :: "string \<Rightarrow> jsvalue" where
  "getChainName chainId =
     (if chainId = ''17000'' then Str ''Holsky Testnet''
      else if chainId = ''8453'' then Str ''Base Mainnet''
      else if List.member objectPrototypeKeys chainId then Inherited chainId
      else Str (''Chain '' @ chainId))"

definition getChainExplorerUrl :: "string \<Rightarrow> string \<Rightarrow> jsvalue" where
  "getChainExplorerUrl chainId txHash =
     (if chainId = ''17000'' then Str (''https://holesky.etherscan.io/tx/'' @ txHash)
      else if chainId = ''8453'' then Str (''https://basescan.org/tx/'' @ txHash)
      else if List.member objectPrototypeKeys chainId then Inherited chainId
      else Str (''#'' @ txHash))"

text \<open>\<open>getSupportedTokens\<close>: each destination token with the chains it lives on.\<close>

definition getSupportedTokens :: "(string \<times> string list) list" where
  "getSupportedTokens = [(''HOLSKEY'', [''17000'']), (''BASE'', [''8453''])]"

text \<open>
  The static whitelist read as a relation: a destination token and a destination chain
  are consistent when the token's entry lists the chain.
\<close>

definition whitelistConsistent :: "string \<Rightarrow> string \<Rightarrow> bool" where
  "whitelistConsistent tok chain =
     (case map_of getSupportedTokens tok of
        None \<Rightarrow> False
      | Some cs \<Rightarrow> List.member cs chain)"

section \<open>The parameter validator\<close>

text \<open>\<^verbatim>\<open>/^0x[a-fA-F0-9]{40}$/\<close>.\<close>

fun matchesEvmAddress :: "string \<Rightarrow> bool" where
  "matchesEvmAddress (a # b # rest) =
     (a = CHR ''0'' \<and> b = CHR ''x'' \<and> length rest = 40 \<and> list_all isHexChar rest)"
| "matchesEvmAddress _ = False"

text \<open>
  \<open>validateBridgeParams\<close> returns the message of the first failed check, or \<open>null\<close>
  (\<open>None\<close>). \<open>!s\<close> on a string is the test for the empty string.
\<close>

definition validateBridgeParams :: "BridgeParams \<Rightarrow> string option" where
  "validateBridgeParams params =
     (if userAddress params = [] then Some ''User address is required''
      else if fromToken params = [] \<or> fromToken params \<noteq> ''XLM''
        then Some ''Only XLM token is supported''
      else if destToken params = []
              \<or> (destToken params \<noteq> ''HOLSKEY'' \<and> destToken params \<noteq> ''BASE'')
        then Some ''Only HOLSKEY and BASE tokens are supported''
      else if numberFalsy (amount params) \<or> numberLeZero (amount params)
        then Some ''Amount must be greater than 0''
      else if destChain params = []
              \<or> (destChain params \<noteq> ''17000'' \<and> destChain params \<noteq> ''8453'')
        then Some ''Only Holsky Testnet (17000) and Base Mainnet (8453) are supported''
      else if recipientAddress params = [] then Some ''Recipient address is required''
      else if (destChain params = ''17000'' \<or> destChain params = ''8453'')
              \<and> \<not> matchesEvmAddress (recipientAddress params)
        then Some (''Invalid recipient address format for ''
                   @ (if destChain params = ''17000'' then ''Holsky Testnet'' else ''Base Mainnet''))
      else None)"

text \<open>
  The legacy \<open>buildLockTransaction\<close> makes no call and cannot fail; the orchestrator
  only logs what it returns.
\<close>

record CallParameters =
  cp_user :: string
  cp_fromToken :: string
  cp_destToken :: string
  cp_amount :: number
  cp_destChain :: string
  cp_recipientAddress :: string

record ContractCall =
  cc_contractId :: string
  cc_method :: string
  cc_parameters :: CallParameters

record NetworkConfig =
  nc_network :: string
  nc_networkPassphrase :: string
  nc_rpcUrl :: string

definition buildLockTransaction :: "BridgeParams \<Rightarrow> BridgeConfig \<Rightarrow> ContractCall \<times> NetworkConfig" where
  "buildLockTransaction params config =
     (\<lparr> cc_contractId = contractId config, cc_method = ''lock'',
         cc_parameters = \<lparr> cp_user = userAddress params, cp_fromToken = fromToken params,
                           cp_destToken = destToken params, cp_amount = amount params,
                           cp_destChain = destChain params,
                           cp_recipientAddress = recipientAddress params \<rparr> \<rparr>,
      \<lparr> nc_network = network config, nc_networkPassphrase = networkPassphrase config,
         nc_rpcUrl = rpcUrl config \<rparr>)"

section \<open>The ledger, the custodial backend and the SDK\<close>

text \<open>
  What the service reads from outside the repository is a parameter of the model.

  The Stellar SDK and the runtime: \<open>new Address(a)\<close> either parses (\<open>None\<close>) or throws
  with a message (\<open>new Contract\<close> and the other \<open>nativeToScVal\<close> calls are taken not
  to throw on what has passed \<open>new Address\<close>); \<open>Asset.native().contractId\<close>; \<open>nativeToScVal(s, {type: "i128"})\<close>,
  which throws on a string that is no integer; the constant \<open>BASE_FEE\<close>;
  \<open>Math.floor(amount * 10_000_000)\<close> and \<open>Number.prototype.toString\<close> on doubles;
  \<open>JSON.parse(text).hash\<close>, which throws on text that does not parse; the message
  of the \<open>TypeError\<close> that \<open>'Ok' in null\<close> throws; and the message of the
  \<open>TypeError\<close> that a call of a missing method throws, from the text of the callee.
\<close>

record AccountData =
  sequence :: string
  balances :: "string list"

text \<open>
  The SDK's \<open>Account\<close>, as \<open>server.getAccount\<close> returns it: the account id and the
  sequence number, which the SDK keeps as an arbitrary-precision integer.
\<close>

record Account =
  accountId :: string
  accountSequence :: int

datatype scval = ScAddress string | ScString string | ScI128 int | ScBytes "byte list"

record InvokeContract =
  invContract :: string
  invMethod :: string
  invArgs :: "scval list"

text \<open>
  A transaction: the source account id, the sequence number, the fee, the passphrase, the
  operations, the timeout, and the Soroban data that the prepare step attaches.
  \<open>toXDR\<close> and \<open>fromXDR\<close> are inverse to each other, so the XDR text of a
  transaction is identified with the transaction.
\<close>

record Transaction =
  txSource :: string
  txSequence :: int
  txFee :: string
  txNetworkPassphrase :: string
  txOperations :: "InvokeContract list"
  txTimeout :: nat
  txSorobanData :: "string option"

text \<open>
  The SDK's \<open>new TransactionBuilder(account, {fee, networkPassphrase})\<close> followed by
  \<open>addOperation(op)\<close>, \<open>setTimeout(t)\<close> and \<open>build()\<close>: \<open>build\<close> gives the
  transaction the sequence number of the account plus one.
\<close>

definition buildTransaction ::
  "Account \<Rightarrow> string \<Rightarrow> string \<Rightarrow> InvokeContract \<Rightarrow> nat \<Rightarrow> Transaction" where
  "buildTransaction account fee passphrase op timeout =
     \<lparr> txSource = accountId account,
       txSequence = accountSequence account + 1,
       txFee = fee,
       txNetworkPassphrase = passphrase,
       txOperations = [op],
       txTimeout = timeout,
       txSorobanData = None \<rparr>"

record Sdk =
  addressError :: "string \<Rightarrow> string option"
  nativeContractId :: "string \<Rightarrow> string"
  i128 :: "string \<Rightarrow> jserror + int"
  BASE_FEE :: string
  floorStroops :: "number \<Rightarrow> number"
  numberToString :: "number \<Rightarrow> string"
  jsonHash :: "string \<Rightarrow> jserror + string option"
  inOperatorTypeError :: string
  notAFunctionTypeError :: "string \<Rightarrow> string"

text \<open>
  A response of \<open>fetch\<close>: \<open>ok\<close>, \<open>status\<close>, and what \<open>json()\<close> resolves to or
  throws. The body of an account is read at \<open>sequence\<close> and \<open>balances\<close>, the body of a
  transaction at \<open>ledger\<close> (\<open>None\<close> when the field is missing).
\<close>

record 'a Response =
  ok :: bool
  status :: nat
  json :: "jserror + 'a"

record TxData =
  ledger :: "nat option"

text \<open>
  The remote world of one attempt: Horizon read through \<open>fetch\<close> (one entry per call
  site), the Soroban RPC server of a given URL, and the clock. Each call either throws
  (the promise rejects) or returns.
\<close>

record World =
  horizonAccounts :: "string \<Rightarrow> jserror + AccountData Response"
  horizonTransactions :: "string \<Rightarrow> jserror + TxData Response"
  getNetwork :: "string \<Rightarrow> jserror + string"
  getAccount :: "string \<Rightarrow> string \<Rightarrow> jserror + Account"
  prepareTransaction :: "string \<Rightarrow> Transaction \<Rightarrow> jserror + Transaction"
  dateNow :: nat

text \<open>
  The custodial backend. A method returns the Candid variant \<open>{Ok: text} | {Err: text}\<close>;
  the code also guards against \<open>null\<close>. What a method does with an argument outside
  its Candid type, such as a missing ledger number, is part of its answer.

  The service interface of the repository's backend declares \<open>stellar_user_lock_txn\<close>
  and \<open>fetch_stellar_events\<close>, and neither \<open>sign_transaction_stellar\<close> nor
  \<open>submit_transaction\<close>. The parameter \<open>actor\<close> has the type \<open>any\<close>, so an actor
  object may or may not have the last two: \<open>None\<close> is a missing method, and calling
  it throws a \<open>TypeError\<close> before any request is made.
\<close>

datatype result = Null | Ok string | Err string

record Actor =
  stellar_user_lock_txn :: "Transaction \<Rightarrow> string \<Rightarrow> jserror + result"
  fetch_stellar_events :: "nat option \<Rightarrow> string \<Rightarrow> jserror + result"
  sign_transaction_stellar :: "(string \<Rightarrow> Transaction \<Rightarrow> string \<Rightarrow> jserror + result) option"
  submit_transaction :: "(string \<Rightarrow> string \<Rightarrow> jserror + result) option"


section \<open>Effects: the trace of calls and the global \<open>window\<close>\<close>

text \<open>
  Every remote call, every wait and every progress value handed to the observer is
  recorded, in order, with its arguments. The two properties the service stores on
  \<open>window\<close> outlive an attempt, so they are part of the state.
\<close>

datatype event =
    Progress nat
  | HorizonAccountFetch string
  | HorizonTransactionFetch string
  | RpcGetNetwork string
  | RpcGetAccount string string
  | RpcPrepareTransaction string Transaction
  | Wait nat
  | StellarUserLockTxn Transaction string
  | FetchStellarEvents "nat option" string
  | SignTransactionStellar string Transaction string
  | SubmitTransaction string string

record Window =
  window_holeskyTxHash :: "string option"
  window_holeskyExplorerUrl :: "jsvalue option"

record State =
  trace :: "event list"
  window :: Window

type_synonym 'a io = "State \<Rightarrow> (jserror + 'a) \<times> State"

definition returnIO :: "'a \<Rightarrow> 'a io" where
  "returnIO x = (\<lambda>s. (Inr x, s))"

definition throwIO :: "jserror \<Rightarrow> 'a io" where
  "throwIO e = (\<lambda>s. (Inl e, s))"

definition andThen :: "'a io \<Rightarrow> ('a \<Rightarrow> 'b io) \<Rightarrow> 'b io" where
  "andThen m f = (\<lambda>s. case m s of (Inl e, s') \<Rightarrow> (Inl e, s') | (Inr x, s') \<Rightarrow> f x s')"

definition tryCatch :: "'a io \<Rightarrow> (jserror \<Rightarrow> 'a io) \<Rightarrow> 'a io" where
  "tryCatch m h = (\<lambda>s. case m s of (Inl e, s') \<Rightarrow> h e s' | (Inr x, s') \<Rightarrow> (Inr x, s'))"

definition liftIO :: "jserror + 'a \<Rightarrow> 'a io" where
  "liftIO r = (case r of Inl e \<Rightarrow> throwIO e | Inr x \<Rightarrow> returnIO x)"

definition emit :: "event \<Rightarrow> unit io" where
  "emit e = (\<lambda>s. (Inr (), s\<lparr>trace := trace s @ [e]\<rparr>))"

text \<open>\<open>await\<close> of a remote call: the call is made, then it returns or throws.\<close>

definition await :: "event \<Rightarrow> jserror + 'a \<Rightarrow> 'a io" where
  "await e r = andThen (emit e) (\<lambda>_. liftIO r)"

text \<open>\<^verbatim>\<open>onProgress?.(n)\<close>: the observer is optional.\<close>

definition onProgress :: "bool \<Rightarrow> nat \<Rightarrow> unit io" where
  "onProgress observer n = (if observer then emit (Progress n) else returnIO ())"

definition setWindow :: "string \<Rightarrow> jsvalue \<Rightarrow> unit io" where
  "setWindow h url =
     (\<lambda>s. (Inr (), s\<lparr>window := \<lparr> window_holeskyTxHash = Some h,
                                  window_holeskyExplorerUrl = Some url \<rparr>\<rparr>))"

definition getWindow :: "Window io" where
  "getWindow = (\<lambda>s. (Inr (window s), s))"

text \<open>Decimal digits of a natural number, for \<^verbatim>\<open>${response.status}\<close>.\<close>

fun showNat :: "nat \<Rightarrow> string" where
  "showNat n =
     (if n < 10 then [char_of (48 + n)]
      else showNat (n div 10) @ [char_of (48 + n mod 10)])"

declare showNat.simps [simp del]

text \<open>\<open>x || y\<close> on strings that may be \<open>undefined\<close>: the first one that is truthy.\<close>

definition truthy :: "string option \<Rightarrow> bool" where
  "truthy v = (case v of None \<Rightarrow> False | Some s \<Rightarrow> s \<noteq> [])"

definition orElse :: "string option \<Rightarrow> string \<Rightarrow> string" where
  "orElse v d = (case v of None \<Rightarrow> d | Some s \<Rightarrow> if s = [] then d else s)"

text \<open>The same on a value that may be a string or a member of \<open>Object.prototype\<close>.\<close>

definition valueOrElse :: "jsvalue option \<Rightarrow> string \<Rightarrow> jsvalue" where
  "valueOrElse v d =
     (case v of
        None \<Rightarrow> Str d
      | Some (Str s) \<Rightarrow> if s = [] then Str d else Str s
      | Some (Inherited k) \<Rightarrow> Inherited k)"

text \<open>\<open>String.prototype.trim\<close>: white space of U+0000..U+00FF removed at both ends.\<close>

definition isWhiteSpace :: "char \<Rightarrow> bool" where
  "isWhiteSpace c = ((of_char c :: nat) \<in> {9, 10, 11, 12, 13, 32, 160})"

definition trim :: "string \<Rightarrow> string" where
  "trim s = rev (dropWhile isWhiteSpace (rev (dropWhile isWhiteSpace s)))"

section \<open>The account gateway\<close>

text \<open>
  \<open>getAccountData\<close> reads the account from Horizon. Its \<open>catch\<close> logs and rethrows
  the same error.
\<close>

definition accountUrl :: "string \<Rightarrow> string \<Rightarrow> string" where
  "accountUrl net address =
     (let horizonUrl = (if net = ''mainnet'' then ''https://horizon.stellar.org''
                        else ''https://horizon-testnet.stellar.org'')
      in horizonUrl @ ''/accounts/'' @ address)"

definition getAccountData :: "World \<Rightarrow> string \<Rightarrow> string \<Rightarrow> AccountData io" where
  "getAccountData w address net =
     (let url = accountUrl net address
      in andThen (await (HorizonAccountFetch url) (horizonAccounts w url)) (\<lambda>response.
         if \<not> ok response
         then (if status response = 404
               then throwIO (Error ''Account not found. Please fund your account first.'')
               else throwIO (Error (''Failed to fetch account data: '' @ showNat (status response))))
         else andThen (liftIO (json response)) (\<lambda>accountData.
              returnIO \<lparr> sequence = sequence accountData, balances = balances accountData \<rparr>)))"

section \<open>The transaction builder\<close>

text \<open>
  The constructor of \<open>StellarBridgeService\<close>: a key that is given (\<open>Some\<close>) wins over the
  default, because the argument is spread last.
\<close>

record ServiceConfig =
  svc_rpcUrl :: string
  svc_defaultBridge :: string

definition newStellarBridgeService :: "string option \<Rightarrow> string option \<Rightarrow> ServiceConfig" where
  "newStellarBridgeService givenRpcUrl givenDefaultBridge =
     \<lparr> svc_rpcUrl = (case givenRpcUrl of
                       None \<Rightarrow> ''https://soroban-testnet.stellar.org''
                     | Some u \<Rightarrow> u),
       svc_defaultBridge = (case givenDefaultBridge of
                       None \<Rightarrow> ''CDTA5IYGUGRI4PAGXJL7TPBEIC3EZY6V23ILF5EDVXFVLCGGMVOK4CRL''
                     | Some b \<Rightarrow> b) \<rparr>"

definition validateAddress :: "Sdk \<Rightarrow> string \<Rightarrow> string \<Rightarrow> jserror + bool" where
  "validateAddress sdk address name =
     (case addressError sdk address of
        None \<Rightarrow> Inr True
      | Some m \<Rightarrow> Inl (Error (''Invalid '' @ name @ '': '' @ address @ '' - '' @ m)))"

definition newAddress :: "Sdk \<Rightarrow> string \<Rightarrow> jserror + string" where
  "newAddress sdk address =
     (case addressError sdk address of None \<Rightarrow> Inr address | Some m \<Rightarrow> Inl (Error m))"

text \<open>
  The argument of \<open>createLockTransactionXDR\<close>. Its only caller passes every field, and
  \<open>null\<close> for \<open>fromToken\<close>, so the defaults of the destructuring are never taken.
\<close>

record LockParams =
  lp_bridgeId :: string
  lp_userAddress :: string
  lp_destToken :: string
  lp_inAmount :: string
  lp_recipient :: string
  lp_destChain :: string
  lp_fromToken :: "string option"

record LockMetadata =
  md_rpc :: string
  md_networkPassphrase :: string
  md_source :: string
  md_bridgeContract :: string
  md_fromToken :: string
  md_destToken :: string
  md_inAmount :: string
  md_destChainBytesLen :: nat
  md_recipient :: string

record LockXdr =
  xdr :: Transaction
  metadata :: LockMetadata

definition createLockTransactionXDR :: "Sdk \<Rightarrow> World \<Rightarrow> ServiceConfig \<Rightarrow> LockParams \<Rightarrow> LockXdr io" where
  "createLockTransactionXDR sdk w svc params =
     (if lp_userAddress params = [] then throwIO (Error ''userAddress is required'')
      else
        andThen (liftIO (validateAddress sdk (lp_userAddress params) ''userAddress'')) (\<lambda>_.
        andThen (liftIO (validateAddress sdk (lp_bridgeId params) ''bridgeId'')) (\<lambda>_.
        andThen (await (RpcGetNetwork (svc_rpcUrl svc)) (getNetwork w (svc_rpcUrl svc)))
          (\<lambda>passphrase.
        andThen (await (RpcGetAccount (svc_rpcUrl svc) (lp_userAddress params))
                       (getAccount w (svc_rpcUrl svc) (lp_userAddress params)))
          (\<lambda>account.
        let fromTokenAddr = orElse (lp_fromToken params) (nativeContractId sdk passphrase)
        in
        andThen (liftIO (newAddress sdk (lp_userAddress params))) (\<lambda>from.
        andThen (liftIO (newAddress sdk fromTokenAddr)) (\<lambda>fromTokenAddress.
        andThen (liftIO (i128 sdk (lp_inAmount params))) (\<lambda>inAmountI128.
        andThen (liftIO (toBytes (lp_destChain params))) (\<lambda>destChainBytes.
        let op = \<lparr> invContract = lp_bridgeId params, invMethod = ''lock'',
                   invArgs = [ScAddress from, ScAddress fromTokenAddress,
                              ScString (lp_destToken params), ScI128 inAmountI128,
                              ScBytes destChainBytes, ScString (lp_recipient params)] \<rparr>;
            tx = buildTransaction account (BASE_FEE sdk) passphrase op 300
        in
        andThen (await (RpcPrepareTransaction (svc_rpcUrl svc) tx)
                       (prepareTransaction w (svc_rpcUrl svc) tx))
          (\<lambda>prepared.
        returnIO \<lparr> xdr = prepared,
                   metadata = \<lparr> md_rpc = svc_rpcUrl svc,
                                md_networkPassphrase = passphrase,
                                md_source = lp_userAddress params,
                                md_bridgeContract = lp_bridgeId params,
                                md_fromToken = fromTokenAddr,
                                md_destToken = lp_destToken params,
                                md_inAmount = lp_inAmount params,
                                md_destChainBytesLen = length destChainBytes,
                                md_recipient = lp_recipient params \<rparr> \<rparr>))))))))))"

section \<open>The lock, index and release pipeline of \<open>buildStellarTransaction\<close>\<close>

record TransactionBuildResult =
  transaction :: Transaction
  transactionXDR :: Transaction
  contractCall :: ContractCall
  networkConfig :: NetworkConfig
  bridgeCompleted :: "bool option"
  holeskyTxHash :: "string option"
  lockTxHash :: "string option"

text \<open>
  The inner \<open>try\<close> block, entered with the hash of the lock: the ledger lookup, the wait of
  eight seconds, the index-and-release call. It yields the release hash when the function
  returns from inside the block, and \<open>None\<close> when control falls out of it; its \<open>catch\<close>
  only logs.
\<close>

definition transactionUrl :: "string \<Rightarrow> string" where
  "transactionUrl txHash = ''https://horizon-testnet.stellar.org/transactions/'' @ txHash"

definition releaseStage :: "bool \<Rightarrow> Actor \<Rightarrow> World \<Rightarrow> BridgeParams \<Rightarrow> string \<Rightarrow> string option io" where
  "releaseStage observer actor w params txHash =
     tryCatch
       (let horizonUrl = transactionUrl txHash
        in
        andThen (await (HorizonTransactionFetch horizonUrl) (horizonTransactions w horizonUrl))
          (\<lambda>txResponse.
        andThen (liftIO (json txResponse)) (\<lambda>txData.
        let ledgerNumber = ledger txData
        in
        andThen (onProgress observer 50) (\<lambda>_.
        andThen (emit (Wait 8000)) (\<lambda>_.
        andThen (await (FetchStellarEvents ledgerNumber (destChain params))
                       (fetch_stellar_events actor ledgerNumber (destChain params)))
          (\<lambda>release_tnx.
        case release_tnx of
          Ok text \<Rightarrow>
            (let hTxHash = trim text
             in if hTxHash \<noteq> [] \<and> startsWith0x hTxHash
                then
                  andThen (onProgress observer 70) (\<lambda>_.
                  andThen (onProgress observer 90) (\<lambda>_.
                  andThen (setWindow hTxHash (getChainExplorerUrl (destChain params) hTxHash))
                    (\<lambda>_.
                  andThen (onProgress observer 100) (\<lambda>_.
                  returnIO (Some hTxHash)))))
                else returnIO None)
        | _ \<Rightarrow> returnIO None))))))
       (\<lambda>error. returnIO None)"

text \<open>
  The block under \<open>if (actor)\<close>: the lock is handed to the custodial signer, and the
  release is attempted when the answer carries a hash. It yields the lock hash and the
  release hash when the bridge completed.
\<close>

definition lockStage ::
  "bool \<Rightarrow> Sdk \<Rightarrow> Actor \<Rightarrow> World \<Rightarrow> BridgeParams \<Rightarrow> BridgeConfig \<Rightarrow> Transaction
     \<Rightarrow> (string \<times> string) option io" where
  "lockStage observer sdk actor w params config lockXdr =
     andThen (onProgress observer 30) (\<lambda>_.
     andThen (await (StellarUserLockTxn lockXdr (network config))
                    (stellar_user_lock_txn actor lockXdr (network config)))
       (\<lambda>lock_txn.
     case lock_txn of
       Ok text \<Rightarrow>
         andThen (liftIO (jsonHash sdk text)) (\<lambda>responseHash.
         case responseHash of
           None \<Rightarrow> returnIO None
         | Some txHash \<Rightarrow>
             if txHash = [] then returnIO None
             else
               andThen (onProgress observer 40) (\<lambda>_.
               andThen (releaseStage observer actor w params txHash) (\<lambda>released.
               returnIO (map_option (\<lambda>h. (txHash, h)) released))))
     | _ \<Rightarrow> returnIO None))"

definition buildStellarTransaction ::
  "bool \<Rightarrow> Sdk \<Rightarrow> World \<Rightarrow> BridgeParams \<Rightarrow> BridgeConfig \<Rightarrow> AccountData \<Rightarrow> Actor option
     \<Rightarrow> TransactionBuildResult io" where
  "buildStellarTransaction observer sdk w params config accountData actor =
     tryCatch
       (let bridgeService = newStellarBridgeService (Some (rpcUrl config)) (Some (contractId config));
            amountStroops = floorStroops sdk (amount params)
        in
        andThen (createLockTransactionXDR sdk w bridgeService
                   \<lparr> lp_bridgeId = contractId config,
                     lp_userAddress = userAddress params,
                     lp_destToken = destToken params,
                     lp_inAmount = numberToString sdk amountStroops,
                     lp_recipient = recipientAddress params,
                     lp_destChain = destChain params,
                     lp_fromToken = None \<rparr>)
          (\<lambda>built.
        let plain =
              \<lparr> transaction = xdr built,
                transactionXDR = xdr built,
                contractCall =
                  \<lparr> cc_contractId = contractId config, cc_method = ''lock'',
                    cc_parameters =
                      \<lparr> cp_user = userAddress params,
                        cp_fromToken = md_fromToken (metadata built),
                        cp_destToken = destToken params,
                        cp_amount = amountStroops,
                        cp_destChain = destChain params,
                        cp_recipientAddress = recipientAddress params \<rparr> \<rparr>,
                networkConfig =
                  \<lparr> nc_network = network config,
                    nc_networkPassphrase = md_networkPassphrase (metadata built),
                    nc_rpcUrl = rpcUrl config \<rparr>,
                bridgeCompleted = None, holeskyTxHash = None, lockTxHash = None \<rparr>
        in
        case actor of
          None \<Rightarrow> returnIO plain
        | Some a \<Rightarrow>
            andThen (lockStage observer sdk a w params config (xdr built)) (\<lambda>completed.
            case completed of
              None \<Rightarrow> returnIO plain
            | Some (txHash, hTxHash) \<Rightarrow>
                returnIO (plain\<lparr> bridgeCompleted := Some True,
                                  holeskyTxHash := Some hTxHash,
                                  lockTxHash := Some txHash \<rparr>))))
       (\<lambda>error. throwIO (Error (''Failed to build transaction: '' @ errorMessage error)))"

section \<open>The orchestrator \<open>executeBridgeTransaction\<close>\<close>

record ContractDetails =
  cd_contractId :: string
  sequenceNumber :: string
  cd_network :: string
  cd_userAddress :: string
  cd_transactionXDR :: "Transaction option"
  lockHash :: "string option"

record BridgeDetails =
  fromChain :: string
  toChain :: jsvalue
  bd_amount :: string
  token :: string
  recipient :: string
  contractExecution :: "bool option"

record BridgeResult =
  success :: bool
  hash :: string
  message :: string
  explorer_url :: jsvalue
  contractDetails :: "ContractDetails option"
  bridgeDetails :: BridgeDetails

text \<open>
  The block under the second \<open>if (actor)\<close>: the transaction is sent to
  \<open>sign_transaction_stellar\<close>, and what that returns to \<open>submit_transaction\<close>. A
  method that the actor does not have throws at the call, and no call is recorded. The
  \<open>catch\<close> of the block wraps every throw of the block.
\<close>

definition signAndSubmit ::
  "bool \<Rightarrow> Sdk \<Rightarrow> World \<Rightarrow> Actor \<Rightarrow> BridgeParams \<Rightarrow> string \<Rightarrow> BridgeConfig
     \<Rightarrow> TransactionBuildResult \<Rightarrow> AccountData \<Rightarrow> BridgeResult io" where
  "signAndSubmit observer sdk w actor params net config buildResult accountData =
     tryCatch
       (andThen (onProgress observer 60) (\<lambda>_.
        andThen (case sign_transaction_stellar actor of
                   None \<Rightarrow>
                     throwIO (Error (notAFunctionTypeError sdk ''actor.sign_transaction_stellar''))
                 | Some sign \<Rightarrow>
                     await (SignTransactionStellar (userAddress params)
                              (transactionXDR buildResult) net)
                           (sign (userAddress params) (transactionXDR buildResult) net))
          (\<lambda>signResult.
        andThen (onProgress observer 80) (\<lambda>_.
        case signResult of
          Null \<Rightarrow> throwIO (Error (inOperatorTypeError sdk))
        | Ok signedXdr \<Rightarrow>
            andThen (onProgress observer 90) (\<lambda>_.
            andThen (case submit_transaction actor of
                       None \<Rightarrow>
                         throwIO (Error (notAFunctionTypeError sdk ''actor.submit_transaction''))
                     | Some submit \<Rightarrow>
                         await (SubmitTransaction signedXdr net) (submit signedXdr net))
              (\<lambda>submitResult.
            case submitResult of
              Null \<Rightarrow> throwIO (Error (inOperatorTypeError sdk))
            | Ok text \<Rightarrow>
                andThen (liftIO (jsonHash sdk text)) (\<lambda>submissionHash.
                andThen (onProgress observer 100) (\<lambda>_.
                andThen getWindow (\<lambda>win.
                returnIO
                  \<lparr> success = True,
                    hash = orElse (window_holeskyTxHash win)
                             (orElse submissionHash (''stellar_tx_'' @ showNat (dateNow w))),
                    message = (if truthy (window_holeskyTxHash win)
                               then ''Bridge transaction completed successfully''
                               else ''Soroban lock contract executed successfully''),
                    explorer_url = valueOrElse (window_holeskyExplorerUrl win)
                                     (''https://stellar.expert/explorer/'' @ network config
                                        @ ''/tx/'' @ orElse submissionHash ''demo''),
                    contractDetails =
                      Some \<lparr> cd_contractId = cc_contractId (contractCall buildResult),
                             sequenceNumber = sequence accountData,
                             cd_network = nc_network (networkConfig buildResult),
                             cd_userAddress = userAddress params,
                             cd_transactionXDR = Some (transactionXDR buildResult),
                             lockHash = None \<rparr>,
                    bridgeDetails =
                      \<lparr> fromChain = ''Stellar'',
                        toChain = getChainName (destChain params),
                        bd_amount = numberToString sdk (amount params),
                        token = destToken params,
                        recipient = recipientAddress params,
                        contractExecution = Some True \<rparr> \<rparr>)))
            | Err e \<Rightarrow> throwIO (Error (''Transaction submission failed: '' @ e))))
        | Err e \<Rightarrow> throwIO (Error (''Transaction signing failed: '' @ e))))))
       (\<lambda>error. throwIO (Error (''Transaction signing/submission failed: ''
                                   @ messageOrError error)))"

text \<open>
  \<open>executeBridgeTransaction\<close>. A validation message is thrown before anything else; the
  rest runs under one \<open>try\<close> whose \<open>catch\<close> wraps the error.
\<close>

definition executeBridgeTransaction ::
  "bool \<Rightarrow> Sdk \<Rightarrow> World \<Rightarrow> BridgeParams \<Rightarrow> string \<Rightarrow> Actor option \<Rightarrow> BridgeResult io" where
  "executeBridgeTransaction observer sdk w params net actor =
     (let validationError = validateBridgeParams params
      in if truthy validationError then throwIO (Error (orElse validationError []))
      else
        let config = getBridgeConfig net
        in
        andThen (onProgress observer 10) (\<lambda>_.
        andThen (onProgress observer 25) (\<lambda>_.
        let legacyCall = fst (buildLockTransaction params config)
        in
        tryCatch
          (andThen (onProgress observer 30) (\<lambda>_.
           andThen (getAccountData w (userAddress params) (network config)) (\<lambda>accountData.
           andThen (onProgress observer 40) (\<lambda>_.
           andThen (buildStellarTransaction observer sdk w params config accountData actor)
             (\<lambda>buildResult.
           andThen (onProgress observer 25) (\<lambda>_.
           if bridgeCompleted buildResult = Some True \<and> truthy (holeskyTxHash buildResult)
           then
             returnIO
               \<lparr> success = True,
                 hash = orElse (holeskyTxHash buildResult) [],
                 message = ''Bridge transaction completed successfully'',
                 explorer_url = getChainExplorerUrl (destChain params)
                                  (orElse (holeskyTxHash buildResult) []),
                 contractDetails =
                   Some \<lparr> cd_contractId = cc_contractId (contractCall buildResult),
                          sequenceNumber = sequence accountData,
                          cd_network = nc_network (networkConfig buildResult),
                          cd_userAddress = userAddress params,
                          cd_transactionXDR = Some (transactionXDR buildResult),
                          lockHash = lockTxHash buildResult \<rparr>,
                 bridgeDetails =
                   \<lparr> fromChain = ''Stellar'',
                     toChain = getChainName (destChain params),
                     bd_amount = numberToString sdk (amount params),
                     token = destToken params,
                     recipient = recipientAddress params,
                     contractExecution = Some True \<rparr> \<rparr>
           else
             (case actor of
                Some a \<Rightarrow> signAndSubmit observer sdk w a params net config buildResult accountData
              | None \<Rightarrow> throwIO (Error ''Backend not available for transaction signing''))))))))
          (\<lambda>error. throwIO (Error (''Transaction building failed: '' @ messageOrError error))))))"

text \<open>
  One attempt starts with an empty trace and whatever an earlier attempt left on
  \<open>window\<close>. Its outcome is the result or the thrown error, its trace the calls it made,
  in order.
\<close>

definition attempt ::
  "bool \<Rightarrow> Sdk \<Rightarrow> World \<Rightarrow> BridgeParams \<Rightarrow> string \<Rightarrow> Actor option \<Rightarrow> Window
     \<Rightarrow> (jserror + BridgeResult) \<times> State" where
  "attempt observer sdk w params net actor win =
     executeBridgeTransaction observer sdk w params net actor \<lparr> trace = [], window = win \<rparr>"

definition outcome ::
  "bool \<Rightarrow> Sdk \<Rightarrow> World \<Rightarrow> BridgeParams \<Rightarrow> string \<Rightarrow> Actor option \<Rightarrow> Window
     \<Rightarrow> jserror + BridgeResult" where
  "outcome observer sdk w params net actor win = fst (attempt observer sdk w params net actor win)"

definition attemptTrace ::
  "bool \<Rightarrow> Sdk \<Rightarrow> World \<Rightarrow> BridgeParams \<Rightarrow> string \<Rightarrow> Actor option \<Rightarrow> Window \<Rightarrow> event list" where
  "attemptTrace observer sdk w params net actor win =
     trace (snd (attempt observer sdk w params net actor win))"

fun progressValue :: "event \<Rightarrow> nat option" where
  "progressValue (Progress n) = Some n"
| "progressValue _ = None"

definition progressValues :: "event list \<Rightarrow> nat list" where
  "progressValues tr = List.map_filter progressValue tr"

text \<open>A network call is any event but a progress value or the local wait.\<close>

fun isNetworkCall :: "event \<Rightarrow> bool" where
  "isNetworkCall (Progress n) = False"
| "isNetworkCall (Wait ms) = False"
| "isNetworkCall _ = True"

section \<open>Notions used to state the properties\<close>

text \<open>
  The hexadecimal text of a byte sequence, two lower-case digits per byte: the encoding
  against which the round trip of \<open>toBytes\<close> is stated.
\<close>

definition hexDigitChar :: "nat \<Rightarrow> char" where
  "hexDigitChar d = (if d < 10 then char_of (48 + d) else char_of (87 + d))"

definition bytesToHex :: "byte list \<Rightarrow> string" where
  "bytesToHex bs = concat (map (\<lambda>b. [hexDigitChar (unat b div 16), hexDigitChar (unat b mod 16)]) bs)"

text \<open>
  \<open>toBytes\<close> round-trips on a string when it returns bytes whose hexadecimal text is the
  string again, up to case and the \<open>0x\<close> prefix.
\<close>

definition roundTrips :: "string \<Rightarrow> bool" where
  "roundTrips val =
     (case toBytes val of
        Inl e \<Rightarrow> False
      | Inr bs \<Rightarrow> bytesToHex bs = toLowerCase (strip0x val))"

text \<open>
  A string of hexadecimal digits after an optional \<open>0x\<close>, and one with an even number
  of them.
\<close>

definition hexDigitsOnly :: "string \<Rightarrow> bool" where
  "hexDigitsOnly val = list_all isHexChar (strip0x val)"

definition evenHexDigits :: "string \<Rightarrow> bool" where
  "evenHexDigits val = (hexDigitsOnly val \<and> length (strip0x val) mod 2 = 0)"

text \<open>\<open>amount > 0\<close> on a number.\<close>

fun numberPositive :: "number \<Rightarrow> bool" where
  "numberPositive NaN = False"
| "numberPositive NegInfinity = False"
| "numberPositive PosInfinity = True"
| "numberPositive (Finite r) = (0 < r)"

text \<open>
  The checks of the validator as an ordered list of rules, each with the message that
  reports its violation; the validator is compared with the first violated rule of this
  list.
\<close>

definition orderedChecks :: "BridgeParams \<Rightarrow> (bool \<times> string) list" where
  "orderedChecks p =
     [(userAddress p \<noteq> [], ''User address is required''),
      (fromToken p = ''XLM'', ''Only XLM token is supported''),
      (destToken p = ''HOLSKEY'' \<or> destToken p = ''BASE'',
         ''Only HOLSKEY and BASE tokens are supported''),
      (numberPositive (amount p), ''Amount must be greater than 0''),
      (destChain p = ''17000'' \<or> destChain p = ''8453'',
         ''Only Holsky Testnet (17000) and Base Mainnet (8453) are supported''),
      (recipientAddress p \<noteq> [], ''Recipient address is required''),
      (matchesEvmAddress (recipientAddress p),
         ''Invalid recipient address format for ''
           @ (if destChain p = ''17000'' then ''Holsky Testnet'' else ''Base Mainnet''))]"

definition firstViolation :: "(bool \<times> string) list \<Rightarrow> string option" where
  "firstViolation checks = map_option snd (find (\<lambda>c. \<not> fst c) checks)"

text \<open>What \<open>onProgress\<close> adds to the trace.\<close>

definition progressEvents :: "bool \<Rightarrow> nat \<Rightarrow> event list" where
  "progressEvents observer n = (if observer then [Progress n] else [])"

text \<open>
  On a trace: the calls that hand the lock transaction to the custodial signer, the calls
  that send a transaction for signing or submission, and what follows the first lock call.
\<close>

fun isLockCall :: "event \<Rightarrow> bool" where
  "isLockCall (StellarUserLockTxn x n) = True"
| "isLockCall _ = False"

fun isSignOrSubmit :: "event \<Rightarrow> bool" where
  "isSignOrSubmit (SignTransactionStellar a x n) = True"
| "isSignOrSubmit (SubmitTransaction x n) = True"
| "isSignOrSubmit _ = False"

definition afterLock :: "event list \<Rightarrow> event list" where
  "afterLock tr = drop 1 (dropWhile (\<lambda>e. \<not> isLockCall e) tr)"

fun lockCallXdr :: "event \<Rightarrow> Transaction option" where
  "lockCallXdr (StellarUserLockTxn x n) = Some x"
| "lockCallXdr e = None"

fun signCallXdr :: "event \<Rightarrow> Transaction option" where
  "signCallXdr (SignTransactionStellar a x n) = Some x"
| "signCallXdr e = None"

fun releaseCall :: "event \<Rightarrow> (nat option \<times> string) option" where
  "releaseCall (FetchStellarEvents l c) = Some (l, c)"
| "releaseCall e = None"

definition lockedXdrs :: "event list \<Rightarrow> Transaction list" where
  "lockedXdrs tr = List.map_filter lockCallXdr tr"

definition signedXdrs :: "event list \<Rightarrow> Transaction list" where
  "signedXdrs tr = List.map_filter signCallXdr tr"

definition releaseCalls :: "event list \<Rightarrow> (nat option \<times> string) list" where
  "releaseCalls tr = List.map_filter releaseCall tr"

text \<open>
  The answer of the index-and-release call carries a destination hash when it is
  \<open>Ok\<close> with a text that, trimmed, starts with \<open>0x\<close>.
\<close>

definition releaseHashPresent :: "jserror + result \<Rightarrow> bool" where
  "releaseHashPresent r =
     (case r of
        Inr (Ok text) \<Rightarrow> trim text \<noteq> [] \<and> startsWith0x (trim text)
      | _ \<Rightarrow> False)"

text \<open>
  The sequence number an account fetch returned, for the two events that fetch an
  account (Horizon answers with a string, the RPC server with an \<open>Account\<close>), and the
  one returned by the last such fetch of a trace.
\<close>

datatype fetched = HorizonSequence string | RpcSequence int

fun fetchedSequence :: "World \<Rightarrow> event \<Rightarrow> fetched option" where
  "fetchedSequence w (HorizonAccountFetch url) =
     (case horizonAccounts w url of
        Inl e \<Rightarrow> None
      | Inr response \<Rightarrow>
          (if ok response
           then (case json response of
                   Inl e \<Rightarrow> None
                 | Inr d \<Rightarrow> Some (HorizonSequence (sequence d)))
           else None))"
| "fetchedSequence w (RpcGetAccount rpc address) =
     (case getAccount w rpc address of
        Inl e \<Rightarrow> None
      | Inr account \<Rightarrow> Some (RpcSequence (accountSequence account)))"
| "fetchedSequence w e = None"

definition fetchedSequences :: "World \<Rightarrow> event list \<Rightarrow> fetched list" where
  "fetchedSequences w tr = List.map_filter (fetchedSequence w) tr"

definition lastFetchedSequence :: "World \<Rightarrow> event list \<Rightarrow> fetched option" where
  "lastFetchedSequence w tr =
     (case rev (fetchedSequences w tr) of
        [] \<Rightarrow> None
      | s # older \<Rightarrow> Some s)"



text \<open>The transactions a trace hands to the ledger's prepare step.\<close>

fun builtTransaction :: "event \<Rightarrow> Transaction option" where
  "builtTransaction (RpcPrepareTransaction rpc tx) = Some tx"
| "builtTransaction e = None"

definition builtTransactions :: "event list \<Rightarrow> Transaction list" where
  "builtTransactions tr = List.map_filter builtTransaction tr"

section \<open>A concrete world\<close>

text \<open>
  The request of the end-to-end scenario, with a valid account address; a ledger whose
  Horizon and RPC views of the account differ by one sequence number; and backends of the
  repository's interface. The SDK of the scenario knows three addresses, each a valid
  strkey (the user's account, the bridge contract and the contract of the native asset),
  converts the amount 5 to 50000000 stroops, and reads a JSON reply as an object whose
  \<open>hash\<close> field is the text of the reply, so a reply is written as the hash it carries.
\<close>

definition scenarioUser :: string where
  "scenarioUser = ''GAAZI4TCR3TY5OJHCTJC2A4QSY6CJWJH5IAJTGKIN2ER7LBNVKOCCWN7''"

definition scenarioBridge :: string where
  "scenarioBridge = ''CDTA5IYGUGRI4PAGXJL7TPBEIC3EZY6V23ILF5EDVXFVLCGGMVOK4CRL''"

definition scenarioNative :: string where
  "scenarioNative = ''CDLZFC3SYJYDZT7K67VZ75HPJVIEUVNIXF47ZG2FB2RMQQVU2HHGCYSC''"

definition scenarioRequest :: BridgeParams where
  "scenarioRequest =
     \<lparr> userAddress = scenarioUser, fromToken = ''XLM'', destToken = ''HOLSKEY'',
       amount = Finite 5, destChain = ''17000'',
       recipientAddress = ''0x8Da1867ab5eE5385dc72f5901bC9Bd16F580d157'' \<rparr>"

definition scenarioSdk :: Sdk where
  "scenarioSdk =
     \<lparr> addressError =
         (\<lambda>a. if a = scenarioUser \<or> a = scenarioBridge \<or> a = scenarioNative then None
              else Some ''Unsupported address type''),
       nativeContractId = (\<lambda>p. scenarioNative),
       i128 = (\<lambda>s. Inr 50000000),
       BASE_FEE = ''100'',
       floorStroops = (\<lambda>n. Finite 50000000),
       numberToString = (\<lambda>n. if n = Finite 5 then ''5'' else ''50000000''),
       jsonHash = (\<lambda>reply. Inr (Some reply)),
       inOperatorTypeError = ''Cannot use in operator to search for Ok in null'',
       notAFunctionTypeError = (\<lambda>callee. callee @ '' is not a function'') \<rparr>"

definition scenarioWorld :: World where
  "scenarioWorld =
     \<lparr> horizonAccounts =
         (\<lambda>url. Inr \<lparr> ok = True, status = 200,
                      json = Inr \<lparr> sequence = ''100'', balances = [] \<rparr> \<rparr>),
       horizonTransactions =
         (\<lambda>url. Inr \<lparr> ok = True, status = 200, json = Inr \<lparr> ledger = Some 42 \<rparr> \<rparr>),
       getNetwork = (\<lambda>rpc. Inr ''Test SDF Network ; September 2015''),
       getAccount = (\<lambda>rpc a. Inr \<lparr> accountId = a, accountSequence = 101 \<rparr>),
       prepareTransaction = (\<lambda>rpc tx. Inr (tx\<lparr> txSorobanData := Some ''footprint'' \<rparr>)),
       dateNow = 1762 \<rparr>"

definition releasingActor :: Actor where
  "releasingActor =
     \<lparr> stellar_user_lock_txn = (\<lambda>x n. Inr (Ok ''lockhash'')),
       fetch_stellar_events = (\<lambda>l c. Inr (Ok '' 0xabc '')),
       sign_transaction_stellar = None,
       submit_transaction = None \<rparr>"

definition stallingActor :: Actor where
  "stallingActor =
     \<lparr> stellar_user_lock_txn = (\<lambda>x n. Inr (Ok ''lockhash'')),
       fetch_stellar_events = (\<lambda>l c. Inr (Err ''release failed'')),
       sign_transaction_stellar = None,
       submit_transaction = None \<rparr>"

definition freshWindow :: Window where
  "freshWindow = \<lparr> window_holeskyTxHash = None, window_holeskyExplorerUrl = None \<rparr>"

text \<open>The transaction the scenario builds, and the one its prepare step returns.\<close>

definition scenarioBuilt :: Transaction where
  "scenarioBuilt =
     \<lparr> txSource = scenarioUser,
       txSequence = 102,
       txFee = ''100'',
       txNetworkPassphrase = ''Test SDF Network ; September 2015'',
       txOperations =
         [\<lparr> invContract = scenarioBridge,
            invMethod = ''lock'',
            invArgs = [ScAddress scenarioUser, ScAddress scenarioNative, ScString ''HOLSKEY'',
                       ScI128 50000000, ScBytes [49, 55, 48, 48, 48],
                       ScString ''0x8Da1867ab5eE5385dc72f5901bC9Bd16F580d157''] \<rparr>],
       txTimeout = 300,
       txSorobanData = None \<rparr>"

definition scenarioXdr :: Transaction where
  "scenarioXdr = scenarioBuilt\<lparr> txSorobanData := Some ''footprint'' \<rparr>"

text \<open>
  Variants of the request: a token on the chain of the other token, a recipient that is
  no address, and an amount of zero.
\<close>

definition holskeyOnBaseRequest :: BridgeParams where
  "holskeyOnBaseRequest = scenarioRequest\<lparr> destChain := ''8453'' \<rparr>"

definition baseOnHoleskyRequest :: BridgeParams where
  "baseOnHoleskyRequest = scenarioRequest\<lparr> destToken := ''BASE'' \<rparr>"

definition badRecipientRequest :: BridgeParams where
  "badRecipientRequest = scenarioRequest\<lparr> recipientAddress := ''not-an-address'' \<rparr>"

definition zeroAmountRequest :: BridgeParams where
  "zeroAmountRequest = scenarioRequest\<lparr> amount := Finite 0 \<rparr>"


section \<open>The destination-chain encoding\<close>

lemma lowerChar_hex: "isLowerHexChar (lowerChar c) = isHexChar c"
proof -
  have "(of_char c :: nat) < 256" by simp
  then show ?thesis
    unfolding isLowerHexChar_def isHexChar_def lowerChar_def Let_def
    by auto
qed

lemma hexDigit_inverse:
  "isLowerHexChar c \<Longrightarrow> \<exists>d. d < 16 \<and> hexDigitValue c = Some d \<and> hexDigitChar d = c"
  by (auto simp add: isLowerHexChar_def hexDigitValue_def hexDigitChar_def Let_def)

lemma hexPair_roundtrip:
  assumes "isLowerHexChar a" "isLowerHexChar b"
  shows "bytesToHex [toUint8 (parseInt16 [a, b])] = [a, b]"
proof -
  obtain d where d: "d < 16" "hexDigitValue a = Some d" "hexDigitChar d = a"
    using hexDigit_inverse [OF assms(1)] by blast
  obtain e where e: "e < 16" "hexDigitValue b = Some e" "hexDigitChar e = b"
    using hexDigit_inverse [OF assms(2)] by blast
  define n where "n = 16 * d + e"
  have v: "toUint8 (parseInt16 [a, b]) = of_nat n"
    using d e by (simp add: parseInt16_def toUint8_def n_def)
  have lt: "n < 256" using d e by (simp add: n_def)
  have u: "unat (of_nat n :: byte) = n"
    by (simp only: unat_of_nat) (simp add: lt)
  have "n div 16 = d" "n mod 16 = e" using e by (simp_all add: n_def)
  then show ?thesis using d e by (simp add: bytesToHex_def v u)
qed

lemma bytesToHex_Cons: "bytesToHex (b # bs) = bytesToHex [b] @ bytesToHex bs"
  by (simp add: bytesToHex_def)

lemma hexPairs_roundtrip:
  "list_all isLowerHexChar s \<Longrightarrow> length s mod 2 = 0 \<Longrightarrow> bytesToHex (hexPairs s) = s"
proof (induction s rule: hexPairs.induct)
  case (1 a b rest)
  then have "bytesToHex (hexPairs rest) = rest" by simp
  moreover have "bytesToHex [toUint8 (parseInt16 [a, b])] = [a, b]"
    using 1 by (simp add: hexPair_roundtrip)
  ultimately show ?case
    using bytesToHex_Cons [of "toUint8 (parseInt16 [a, b])" "hexPairs rest"] by simp
qed (simp_all add: bytesToHex_def)

lemma strip0x_toLowerCase:
  assumes "startsWith0x val \<or> list_all isHexChar (strip0x val)"
  shows "strip0x (toLowerCase val) = toLowerCase (strip0x val)"
proof (cases val rule: strip0x.cases)
  case (1 a b rest)
  show ?thesis
  proof (cases "a = CHR ''0'' \<and> b = CHR ''x''")
    case True
    then show ?thesis using 1 by (simp add: toLowerCase_def lowerChar_def)
  next
    case False
    with assms 1 have hx: "isHexChar a" "isHexChar b" by (auto split: if_splits)
    then have "isLowerHexChar (lowerChar b)" by (simp add: lowerChar_hex)
    then have "lowerChar b \<noteq> CHR ''x''" by (auto simp add: isLowerHexChar_def)
    then show ?thesis using 1 False by (simp add: toLowerCase_def)
  qed
qed (simp_all add: toLowerCase_def)

lemma length_toLowerCase: "length (toLowerCase s) = length s"
  by (simp add: toLowerCase_def)

lemma list_all_lower: "list_all isLowerHexChar (toLowerCase s) = list_all isHexChar s"
  by (induction s) (simp_all add: toLowerCase_def lowerChar_hex)

lemma hexToBytes_eq:
  assumes "startsWith0x val \<or> list_all isHexChar (strip0x val)"
  shows "hexToBytes val =
     (if evenHexDigits val then Inr (hexPairs (toLowerCase (strip0x val)))
      else Inl (Error ''Invalid hex for dest-chain''))"
  using strip0x_toLowerCase [OF assms]
  by (simp add: hexToBytes_def evenHexDigits_def hexDigitsOnly_def list_all_lower Let_def
        length_toLowerCase)

lemma toBytes_eq:
  "toBytes val =
     (if evenHexDigits val then Inr (hexPairs (toLowerCase (strip0x val)))
      else Inr (textEncode val))"
proof (cases "startsWith0x val \<or> (strip0x val \<noteq> [] \<and> list_all isHexChar (strip0x val))")
  case True
  then have "startsWith0x val \<or> list_all isHexChar (strip0x val)" by blast
  from hexToBytes_eq [OF this] True show ?thesis by (simp add: toBytes_def)
next
  case False
  show ?thesis
  proof (cases "strip0x val = []")
    case True
    with False have "val = []" by (cases val rule: strip0x.cases) (auto split: if_splits)
    then show ?thesis
      by (simp add: toBytes_def evenHexDigits_def hexDigitsOnly_def textEncode_def toLowerCase_def)
  next
    case nonempty: False
    with False have "\<not> startsWith0x val" "\<not> list_all isHexChar (strip0x val)" by auto
    then show ?thesis by (simp add: toBytes_def evenHexDigits_def hexDigitsOnly_def)
  qed
qed

lemma hexChars:
  "isHexChar CHR ''0''" "isHexChar CHR ''1''" "isHexChar CHR ''2''" "isHexChar CHR ''3''"
  "isHexChar CHR ''4''" "isHexChar CHR ''5''" "isHexChar CHR ''6''" "isHexChar CHR ''7''"
  "isHexChar CHR ''8''" "isHexChar CHR ''9''" "isHexChar CHR ''a''" "isHexChar CHR ''b''"
  "isHexChar CHR ''c''" "isHexChar CHR ''d''" "isHexChar CHR ''e''" "isHexChar CHR ''f''"
  "isHexChar CHR ''A''" "isHexChar CHR ''B''" "isHexChar CHR ''C''" "isHexChar CHR ''D''"
  "isHexChar CHR ''E''" "isHexChar CHR ''F''"
  by (simp_all add: isHexChar_def)

lemma toBytes_17000: "toBytes ''17000'' = Inr [49, 55, 48, 48, 48]"
  by (simp add: toBytes_eq evenHexDigits_def hexDigitsOnly_def hexChars textEncode_def
        utf8Char_def)

lemma toBytes_8453: "toBytes ''8453'' = Inr [132, 83]"
  by (simp add: toBytes_eq evenHexDigits_def hexDigitsOnly_def hexChars toLowerCase_def
        lowerChar_def parseInt16_def hexDigitValue_def toUint8_def)

text \<open>
  C7, as amended. For every string that, after an optional \<open>0x\<close>, is an even number of
  hexadecimal digits, \<open>toBytes\<close> returns the hex-decoded bytes, and their hexadecimal text
  is the string again up to case and the prefix. For every other string, a string of an
  odd number of hexadecimal digits included, it returns the UTF-8 encoding. It never
  throws.
\<close>

theorem toBytes_hex_decodes_even_else_utf8:
  "(evenHexDigits val \<longrightarrow>
      toBytes val = Inr (hexPairs (toLowerCase (strip0x val))) \<and> roundTrips val)
   \<and> (\<not> evenHexDigits val \<longrightarrow> toBytes val = Inr (textEncode val))
   \<and> (\<exists>bs. toBytes val = Inr bs)"
proof -
  have "bytesToHex (hexPairs (toLowerCase (strip0x val))) = toLowerCase (strip0x val)"
    if "evenHexDigits val"
    using that hexPairs_roundtrip [of "toLowerCase (strip0x val)"]
    by (simp add: evenHexDigits_def hexDigitsOnly_def list_all_lower length_toLowerCase)
  then show ?thesis by (simp add: toBytes_eq roundTrips_def)
qed

theorem toBytes_hex_decodes_even_else_utf8_witness:
  "evenHexDigits ''8453'' \<and> toBytes ''8453'' = Inr [132, 83] \<and> roundTrips ''8453''
   \<and> \<not> evenHexDigits ''bridge'' \<and> toBytes ''bridge'' = Inr [98, 114, 105, 100, 103, 101]"
proof -
  have even: "evenHexDigits ''8453''"
    by (simp add: evenHexDigits_def hexDigitsOnly_def hexChars)
  have odd: "\<not> evenHexDigits ''bridge''"
    by (simp add: evenHexDigits_def hexDigitsOnly_def isHexChar_def)
  have "roundTrips ''8453''"
    using toBytes_hex_decodes_even_else_utf8 [of "''8453''"] even by blast
  moreover have "toBytes ''bridge'' = Inr (textEncode ''bridge'')"
    using toBytes_hex_decodes_even_else_utf8 [of "''bridge''"] odd by blast
  ultimately show ?thesis
    using even odd by (simp add: toBytes_8453 textEncode_def utf8Char_def)
qed

theorem toBytes_odd_hex_counterexample:
  "hexDigitsOnly ''17000'' \<and> \<not> roundTrips ''17000''"
  by (simp add: hexDigitsOnly_def hexChars roundTrips_def toBytes_17000 bytesToHex_def
        hexDigitChar_def toLowerCase_def lowerChar_def)

section \<open>The config resolver\<close>

text \<open>
  C9. The config resolver is a total function: on \<open>stellar-mainnet\<close> it returns the
  mainnet configuration, and on every other network name, known or not, the testnet
  configuration, with the testnet RPC URL and the passphrase
  \<open>Test SDF Network ; September 2015\<close>. It never fails.
\<close>

theorem getBridgeConfig_mainnet_else_testnet:
  "getBridgeConfig ''stellar-mainnet'' =
     \<lparr> contractId = ''CDTA5IYGUGRI4PAGXJL7TPBEIC3EZY6V23ILF5EDVXFVLCGGMVOK4CRL'',
       network = ''mainnet'',
       rpcUrl = ''https://soroban-mainnet.stellar.org'',
       networkPassphrase = ''Public Global Stellar Network ; September 2015'' \<rparr>
   \<and> (net \<noteq> ''stellar-mainnet'' \<longrightarrow>
        getBridgeConfig net =
          \<lparr> contractId = ''CDTA5IYGUGRI4PAGXJL7TPBEIC3EZY6V23ILF5EDVXFVLCGGMVOK4CRL'',
            network = ''testnet'',
            rpcUrl = ''https://soroban-testnet.stellar.org'',
            networkPassphrase = ''Test SDF Network ; September 2015'' \<rparr>)"
  by (simp add: getBridgeConfig_def)

theorem getBridgeConfig_mainnet_else_testnet_witness:
  "''no-such-network'' \<noteq> ''stellar-mainnet''
   \<and> rpcUrl (getBridgeConfig ''no-such-network'') = ''https://soroban-testnet.stellar.org''
   \<and> networkPassphrase (getBridgeConfig ''no-such-network'')
         = ''Test SDF Network ; September 2015''"
proof -
  have other: "''no-such-network'' \<noteq> ''stellar-mainnet''" by simp
  from getBridgeConfig_mainnet_else_testnet [of "''no-such-network''"] other
  have "getBridgeConfig ''no-such-network'' =
          \<lparr> contractId = ''CDTA5IYGUGRI4PAGXJL7TPBEIC3EZY6V23ILF5EDVXFVLCGGMVOK4CRL'',
            network = ''testnet'',
            rpcUrl = ''https://soroban-testnet.stellar.org'',
            networkPassphrase = ''Test SDF Network ; September 2015'' \<rparr>"
    by blast
  then show ?thesis using other by simp
qed

text \<open>
  C10. For every network name \<open>getBridgeConfig\<close> returns the same contract id,
  \<open>CDTA5IYGUGRI4PAGXJL7TPBEIC3EZY6V23ILF5EDVXFVLCGGMVOK4CRL\<close>: the id does not depend
  on the network, and it is also the default bridge of the service constructor.
\<close>

theorem getBridgeConfig_contractId_constant:
  "contractId (getBridgeConfig net) = ''CDTA5IYGUGRI4PAGXJL7TPBEIC3EZY6V23ILF5EDVXFVLCGGMVOK4CRL''
   \<and> contractId (getBridgeConfig net) = contractId (getBridgeConfig net')
   \<and> svc_defaultBridge (newStellarBridgeService url None) = contractId (getBridgeConfig net)"
  by (simp add: getBridgeConfig_def newStellarBridgeService_def Let_def)

section \<open>The parameter validator\<close>

lemma numberPositive_iff: "numberPositive n = (\<not> (numberFalsy n \<or> numberLeZero n))"
  by (cases n) (auto simp add: numberFalsy_def)

lemma validate_message_nonempty: "validateBridgeParams p = Some e \<Longrightarrow> e \<noteq> []"
  by (auto simp add: validateBridgeParams_def split: if_splits)

lemma scenario_valid: "validateBridgeParams scenarioRequest = None"
  by (simp add: validateBridgeParams_def scenarioRequest_def scenarioUser_def numberFalsy_def hexChars)

text \<open>
  C6, as amended. \<open>validateBridgeParams\<close> applies its checks in this order: user address
  present; source token \<open>XLM\<close>; destination token \<open>HOLSKEY\<close> or \<open>BASE\<close>; amount
  greater than 0; destination chain \<open>17000\<close> or \<open>8453\<close>; recipient address present;
  recipient address of the form \<open>0x\<close> and 40 hexadecimal digits. It stops at the first
  check that fails and returns the message of that check, and \<open>null\<close> when all hold.
\<close>

theorem validate_returns_first_violation:
  "validateBridgeParams p = firstViolation (orderedChecks p)"
  by (simp add: validateBridgeParams_def firstViolation_def orderedChecks_def
        numberPositive_iff)

theorem validate_returns_first_violation_witness:
  "firstViolation (orderedChecks badRecipientRequest)
     = Some ''Invalid recipient address format for Holsky Testnet''
   \<and> validateBridgeParams badRecipientRequest
     = Some ''Invalid recipient address format for Holsky Testnet''"
proof -
  have "firstViolation (orderedChecks badRecipientRequest)
          = Some ''Invalid recipient address format for Holsky Testnet''"
    by (simp add: firstViolation_def orderedChecks_def badRecipientRequest_def
          scenarioRequest_def scenarioUser_def)
  then show ?thesis
    using validate_returns_first_violation [of badRecipientRequest] by simp
qed

theorem validate_skips_consistency_counterexample:
  "\<not> whitelistConsistent (destToken baseOnHoleskyRequest) (destChain baseOnHoleskyRequest)
   \<and> validateBridgeParams baseOnHoleskyRequest = None"
  by (simp add: whitelistConsistent_def getSupportedTokens_def baseOnHoleskyRequest_def
        scenarioRequest_def scenarioUser_def validateBridgeParams_def numberFalsy_def hexChars)

section \<open>Running the effects\<close>

text \<open>
  What each primitive does to a state, and how the observers of a trace distribute over
  the pieces a stage appends.
\<close>

lemmas io_defs = returnIO_def throwIO_def andThen_def tryCatch_def liftIO_def emit_def await_def
  onProgress_def setWindow_def getWindow_def

lemma returnIO_apply: "returnIO x s = (Inr x, s)"
  by (simp add: returnIO_def)

lemma throwIO_apply: "throwIO e s = (Inl e, s)"
  by (simp add: throwIO_def)

lemma andThen_apply:
  "andThen m f s = (case m s of (Inl e, s') \<Rightarrow> (Inl e, s') | (Inr x, s') \<Rightarrow> f x s')"
  by (simp add: andThen_def)

lemma tryCatch_apply:
  "tryCatch m h s = (case m s of (Inl e, s') \<Rightarrow> h e s' | (Inr x, s') \<Rightarrow> (Inr x, s'))"
  by (simp add: tryCatch_def)

lemma liftIO_apply: "liftIO r s = (case r of Inl e \<Rightarrow> (Inl e, s) | Inr x \<Rightarrow> (Inr x, s))"
  by (simp add: liftIO_def returnIO_def throwIO_def split: sum.splits)

lemma emit_apply: "emit e s = (Inr (), s\<lparr>trace := trace s @ [e]\<rparr>)"
  by (simp add: emit_def)

lemma await_apply:
  "await ev r s = (case r of Inl e \<Rightarrow> (Inl e, s\<lparr>trace := trace s @ [ev]\<rparr>)
                          | Inr x \<Rightarrow> (Inr x, s\<lparr>trace := trace s @ [ev]\<rparr>))"
  by (simp add: await_def andThen_def emit_def liftIO_def returnIO_def throwIO_def split: sum.splits)

lemma onProgress_apply:
  "onProgress observer n s = (Inr (), s\<lparr>trace := trace s @ progressEvents observer n\<rparr>)"
  by (simp add: onProgress_def emit_def returnIO_def progressEvents_def)

lemma setWindow_apply:
  "setWindow h url s = (Inr (), s\<lparr>window := \<lparr> window_holeskyTxHash = Some h,
                                               window_holeskyExplorerUrl = Some url \<rparr>\<rparr>)"
  by (simp add: setWindow_def)

lemma getWindow_apply: "getWindow s = (Inr (window s), s)"
  by (simp add: getWindow_def)

lemmas io_simps = returnIO_apply throwIO_apply andThen_apply tryCatch_apply liftIO_apply
  emit_apply await_apply onProgress_apply setWindow_apply getWindow_apply

lemma map_filter_append: "List.map_filter f (xs @ ys) = List.map_filter f xs @ List.map_filter f ys"
  by (simp add: List.map_filter_def)

lemma observers_progress:
  "lockedXdrs (progressEvents observer n) = []"
  "signedXdrs (progressEvents observer n) = []"
  "releaseCalls (progressEvents observer n) = []"
  "fetchedSequences w (progressEvents observer n) = []"
  "builtTransactions (progressEvents observer n) = []"
  "filter isSignOrSubmit (progressEvents observer n) = []"
  by (simp_all add: progressEvents_def lockedXdrs_def signedXdrs_def releaseCalls_def
        fetchedSequences_def builtTransactions_def List.map_filter_simps)

lemma observers_append:
  "lockedXdrs (xs @ ys) = lockedXdrs xs @ lockedXdrs ys"
  "signedXdrs (xs @ ys) = signedXdrs xs @ signedXdrs ys"
  "releaseCalls (xs @ ys) = releaseCalls xs @ releaseCalls ys"
  "fetchedSequences w (xs @ ys) = fetchedSequences w xs @ fetchedSequences w ys"
  "builtTransactions (xs @ ys) = builtTransactions xs @ builtTransactions ys"
  by (simp_all add: lockedXdrs_def signedXdrs_def releaseCalls_def
        fetchedSequences_def builtTransactions_def map_filter_append)

lemma observers_Cons:
  "lockedXdrs (e # ys) =
     (case lockCallXdr e of None \<Rightarrow> lockedXdrs ys | Some x \<Rightarrow> x # lockedXdrs ys)"
  "signedXdrs (e # ys) =
     (case signCallXdr e of None \<Rightarrow> signedXdrs ys | Some x \<Rightarrow> x # signedXdrs ys)"
  "releaseCalls (e # ys) =
     (case releaseCall e of None \<Rightarrow> releaseCalls ys | Some x \<Rightarrow> x # releaseCalls ys)"
  "fetchedSequences w (e # ys) =
     (case fetchedSequence w e of
        None \<Rightarrow> fetchedSequences w ys
      | Some x \<Rightarrow> x # fetchedSequences w ys)"
  "builtTransactions (e # ys) =
     (case builtTransaction e of
        None \<Rightarrow> builtTransactions ys
      | Some x \<Rightarrow> x # builtTransactions ys)"
  by (simp_all add: lockedXdrs_def signedXdrs_def releaseCalls_def
        fetchedSequences_def builtTransactions_def List.map_filter_simps split: option.splits)

lemma observers_Nil:
  "lockedXdrs [] = []" "signedXdrs [] = []" "releaseCalls [] = []"
  "fetchedSequences w [] = []" "builtTransactions [] = []"
  by (simp_all add: lockedXdrs_def signedXdrs_def releaseCalls_def
        fetchedSequences_def builtTransactions_def List.map_filter_simps)

lemmas observers = observers_progress observers_append observers_Cons observers_Nil

section \<open>What each stage appends to the trace\<close>

text \<open>
  One lemma per stage: from a run of the stage, the calls it added to the trace and what
  its result says about them. The lemma of a stage uses the lemmas of the stages it calls.
\<close>

lemma toBytes_total: "\<exists>bs. toBytes v = Inr bs"
  by (simp add: toBytes_def split: sum.splits)

lemma createLock_run:
  assumes "createLockTransactionXDR sdk w svc lp s = (r, s')"
  shows "(isl r \<and> (s' = s
                  \<or> s' = s\<lparr>trace := trace s @ [RpcGetNetwork (svc_rpcUrl svc)]\<rparr>
                  \<or> s' = s\<lparr>trace := trace s @ [RpcGetNetwork (svc_rpcUrl svc),
                                   RpcGetAccount (svc_rpcUrl svc) (lp_userAddress lp)]\<rparr>))
       \<or> (\<exists>tx. s' = s\<lparr>trace := trace s @ [RpcGetNetwork (svc_rpcUrl svc),
                                   RpcGetAccount (svc_rpcUrl svc) (lp_userAddress lp),
                                   RpcPrepareTransaction (svc_rpcUrl svc) tx]\<rparr>
              \<and> (\<exists>account. getAccount w (svc_rpcUrl svc) (lp_userAddress lp) = Inr account
                     \<and> txSequence tx = accountSequence account + 1)
              \<and> (case r of Inl e \<Rightarrow> True
                   | Inr b \<Rightarrow> prepareTransaction w (svc_rpcUrl svc) tx = Inr (xdr b)))"
  using assms toBytes_total [of "lp_destChain lp"]
  unfolding createLockTransactionXDR_def io_defs Let_def validateAddress_def newAddress_def
    buildTransaction_def
  by (auto split: sum.splits option.splits if_splits)

lemma releaseStage_run:
  assumes "releaseStage observer actor w params txHash s = (r, s')"
  shows "\<exists>ev. trace s' = trace s @ HorizonTransactionFetch (transactionUrl txHash) # ev
           \<and> lockedXdrs ev = [] \<and> signedXdrs ev = [] \<and> filter isSignOrSubmit ev = []
           \<and> fetchedSequences w ev = [] \<and> builtTransactions ev = []
           \<and> ((r = Inr None
                 \<and> (\<forall>l c. (l, c) \<in> set (releaseCalls ev) \<longrightarrow> \<not> releaseHashPresent (fetch_stellar_events actor l c)))
               \<or> (\<exists>l h. r = Inr (Some h) \<and> h \<noteq> [] \<and> releaseCalls ev = [(l, destChain params)]
                     \<and> releaseHashPresent (fetch_stellar_events actor l (destChain params))))"
proof (cases "horizonTransactions w (transactionUrl txHash)")
  case (Inl e)
  then show ?thesis using assms
    by (auto simp add: releaseStage_def io_simps observers)
next
  case (Inr response)
  show ?thesis
  proof (cases "json response")
    case (Inl e)
    then show ?thesis using assms Inr
      by (auto simp add: releaseStage_def io_simps observers)
  next
    case body: (Inr d)
    show ?thesis
    proof (cases "releaseHashPresent (fetch_stellar_events actor (ledger d) (destChain params))")
      case True
      then obtain reply where ok: "fetch_stellar_events actor (ledger d) (destChain params) = Inr (Ok reply)"
        and good: "trim reply \<noteq> []" "startsWith0x (trim reply)"
        by (auto simp add: releaseHashPresent_def split: sum.splits result.splits)
      have "r = Inr (Some (trim reply))"
        using assms Inr body ok good
        by (auto simp add: releaseStage_def io_simps Let_def)
      moreover have "trace s' = trace s @ HorizonTransactionFetch (transactionUrl txHash)
            # (progressEvents observer 50 @ [Wait 8000, FetchStellarEvents (ledger d) (destChain params)]
               @ progressEvents observer 70 @ progressEvents observer 90 @ progressEvents observer 100)"
        using assms Inr body ok good
        by (auto simp add: releaseStage_def io_simps Let_def)
      ultimately show ?thesis using True good
        by (intro exI [of _ "progressEvents observer 50 @ [Wait 8000, FetchStellarEvents (ledger d) (destChain params)]
               @ progressEvents observer 70 @ progressEvents observer 90 @ progressEvents observer 100"])
           (auto simp add: observers)
    next
      case False
      have "r = Inr None"
        using assms Inr body False
        by (auto simp add: releaseStage_def io_simps Let_def releaseHashPresent_def
              split: sum.splits result.splits if_splits)
      moreover have "trace s' = trace s @ HorizonTransactionFetch (transactionUrl txHash)
            # (progressEvents observer 50 @ [Wait 8000, FetchStellarEvents (ledger d) (destChain params)])"
        using assms Inr body False
        by (auto simp add: releaseStage_def io_simps Let_def releaseHashPresent_def
              split: sum.splits result.splits if_splits)
      ultimately show ?thesis using False
        by (intro exI [of _ "progressEvents observer 50 @ [Wait 8000, FetchStellarEvents (ledger d) (destChain params)]"])
           (auto simp add: observers)
    qed
  qed
qed

lemma lockStage_run:
  assumes "lockStage observer sdk actor w params config x s = (r, s')"
  shows "\<exists>ev. trace s' = trace s @ ev
           \<and> lockedXdrs ev = [x] \<and> signedXdrs ev = [] \<and> filter isSignOrSubmit ev = []
           \<and> fetchedSequences w ev = [] \<and> builtTransactions ev = []
           \<and> ((isl r \<and> releaseCalls ev = [])
               \<or> (r = Inr None
                 \<and> (\<forall>l c. (l, c) \<in> set (releaseCalls ev) \<longrightarrow> \<not> releaseHashPresent (fetch_stellar_events actor l c)))
               \<or> (\<exists>l h hh. r = Inr (Some (h, hh)) \<and> h \<noteq> [] \<and> hh \<noteq> []
                     \<and> releaseCalls ev = [(l, destChain params)]
                     \<and> releaseHashPresent (fetch_stellar_events actor l (destChain params))))"
proof (cases "stellar_user_lock_txn actor x (network config)")
  case (Inl e)
  then show ?thesis using assms
    by (auto simp add: lockStage_def io_simps observers)
next
  case (Inr res)
  show ?thesis
  proof (cases res)
    case Null
    then show ?thesis using assms Inr
      by (auto simp add: lockStage_def io_simps observers)
  next
    case (Err m)
    then show ?thesis using assms Inr
      by (auto simp add: lockStage_def io_simps observers)
  next
    case (Ok reply)
    show ?thesis
    proof (cases "jsonHash sdk reply")
      case (Inl e)
      then show ?thesis using assms Inr Ok
        by (auto simp add: lockStage_def io_simps observers)
    next
      case parsed: (Inr responseHash)
      show ?thesis
      proof (cases "truthy responseHash")
        case False
        then show ?thesis using assms Inr Ok parsed
          by (auto simp add: lockStage_def io_simps observers truthy_def split: option.splits)
      next
        case True
        then obtain h where h: "responseHash = Some h" "h \<noteq> []"
          by (auto simp add: truthy_def split: option.splits)
        show ?thesis using assms Inr Ok parsed h
          by (auto simp add: lockStage_def io_simps observers split: prod.splits sum.splits
                dest!: releaseStage_run)
      qed
    qed
  qed
qed

lemma createLock_facts:
  assumes "createLockTransactionXDR sdk w svc lp s = (r, s')"
  shows "\<exists>ev. trace s' = trace s @ ev
           \<and> lockedXdrs ev = [] \<and> signedXdrs ev = [] \<and> filter isSignOrSubmit ev = []
           \<and> releaseCalls ev = []
           \<and> (builtTransactions ev = []
               \<or> (\<exists>tx. builtTransactions ev = [tx]
                     \<and> fetchedSequences w ev = [RpcSequence (txSequence tx - 1)]))
           \<and> (\<forall>b. r = Inr b \<longrightarrow>
                  (\<exists>tx. builtTransactions ev = [tx]
                     \<and> prepareTransaction w (svc_rpcUrl svc) tx = Inr (xdr b)))"
  using createLock_run [OF assms]
  by (elim disjE exE conjE) (auto simp add: observers)

lemma buildStellarTransaction_run:
  assumes "buildStellarTransaction observer sdk w params config accountData actor s = (r, s')"
  shows "\<exists>ev. trace s' = trace s @ ev
           \<and> signedXdrs ev = [] \<and> filter isSignOrSubmit ev = []
           \<and> (builtTransactions ev = []
               \<or> (\<exists>tx. builtTransactions ev = [tx]
                     \<and> fetchedSequences w ev = [RpcSequence (txSequence tx - 1)]))
           \<and> (\<forall>x \<in> set (lockedXdrs ev).
                  \<exists>tx. builtTransactions ev = [tx]
                     \<and> prepareTransaction w (rpcUrl config) tx = Inr x)
           \<and> (case r of
                 Inl e \<Rightarrow> length (lockedXdrs ev) \<le> 1 \<and> releaseCalls ev = []
               | Inr b \<Rightarrow>
                   (actor = None \<longrightarrow> lockedXdrs ev = [] \<and> releaseCalls ev = []
                        \<and> bridgeCompleted b = None)
                 \<and> (\<forall>a. actor = Some a \<longrightarrow>
                       lockedXdrs ev = [transactionXDR b]
                     \<and> ((bridgeCompleted b = Some True \<and> truthy (holeskyTxHash b)
                          \<and> (\<exists>l. releaseCalls ev = [(l, destChain params)]
                                \<and> releaseHashPresent
                                      (fetch_stellar_events a l (destChain params))))
                        \<or> (bridgeCompleted b = None
                          \<and> (\<forall>l c. (l, c) \<in> set (releaseCalls ev) \<longrightarrow> \<not> releaseHashPresent (fetch_stellar_events a l c))))))"
proof (cases actor)
  case None
  then show ?thesis using assms
    by (auto simp add: buildStellarTransaction_def io_simps observers Let_def
          newStellarBridgeService_def
          split: prod.splits sum.splits dest!: createLock_facts)
next
  case (Some a)
  then show ?thesis using assms
    by (auto simp add: buildStellarTransaction_def io_simps observers Let_def truthy_def
          newStellarBridgeService_def
          split: prod.splits sum.splits option.splits
          dest!: createLock_facts lockStage_run)
qed

lemma signAndSubmit_run:
  assumes "signAndSubmit observer sdk w actor params net config b accountData s = (r, s')"
  shows "\<exists>ev. trace s' = trace s @ ev
           \<and> lockedXdrs ev = [] \<and> releaseCalls ev = []
           \<and> fetchedSequences w ev = [] \<and> builtTransactions ev = []
           \<and> (sign_transaction_stellar actor = None \<longrightarrow>
                  filter isSignOrSubmit ev = []
                \<and> r = Inl (Error (''Transaction signing/submission failed: ''
                           @ messageOrError
                               (Error (notAFunctionTypeError sdk
                                         ''actor.sign_transaction_stellar'')))))"
proof (cases "sign_transaction_stellar actor")
  case None
  then show ?thesis using assms
    by (auto simp add: signAndSubmit_def io_simps observers)
next
  case (Some sign)
  show ?thesis
  proof (cases "sign (userAddress params) (transactionXDR b) net")
    case (Inl e)
    then show ?thesis using assms Some
      by (auto simp add: signAndSubmit_def io_simps observers)
  next
    case (Inr signResult)
    show ?thesis
    proof (cases signResult)
      case Null
      then show ?thesis using assms Some Inr
        by (auto simp add: signAndSubmit_def io_simps observers)
    next
      case (Err m)
      then show ?thesis using assms Some Inr
        by (auto simp add: signAndSubmit_def io_simps observers)
    next
      case (Ok signedXdr)
      show ?thesis
      proof (cases "submit_transaction actor")
        case None
        then show ?thesis using assms Some Inr Ok
          by (auto simp add: signAndSubmit_def io_simps observers)
      next
        case present: (Some submit)
        show ?thesis
        proof (cases "submit signedXdr net")
          case (Inl e)
          then show ?thesis using assms Some Inr Ok present
            by (auto simp add: signAndSubmit_def io_simps observers)
        next
          case submitted: (Inr submitResult)
          then show ?thesis using assms Some Inr Ok present
            by (cases submitResult)
               (auto simp add: signAndSubmit_def io_simps observers split: sum.splits)
        qed
      qed
    qed
  qed
qed

lemma getAccountData_trace:
  assumes "getAccountData w address net s = (r, s')"
  shows "trace s' = trace s @ [HorizonAccountFetch (accountUrl net address)]"
  using assms
  by (auto simp add: getAccountData_def io_simps Let_def split: sum.splits if_splits)

text \<open>
  The facts about a whole attempt from which the properties of the orchestrator follow.
\<close>

lemma messageOrError_Cons: "messageOrError (Error (c # cs)) = c # cs"
  by (simp add: messageOrError_def)

lemma attempt_facts:
  assumes run: "attempt observer sdk w params net actor win = (r, s')"
  shows "length (lockedXdrs (trace s')) \<le> 1
       \<and> ((\<forall>a. actor = Some a \<longrightarrow> sign_transaction_stellar a = None)
             \<longrightarrow> filter isSignOrSubmit (trace s') = [])
       \<and> (\<forall>a l c. actor = Some a \<and> sign_transaction_stellar a = None
             \<and> (l, c) \<in> set (releaseCalls (trace s'))
             \<and> \<not> releaseHashPresent (fetch_stellar_events a l c)
             \<longrightarrow> length (lockedXdrs (trace s')) = 1
                \<and> r = Inl (Error (''Transaction building failed: ''
                           @ ''Transaction signing/submission failed: ''
                           @ messageOrError
                               (Error (notAFunctionTypeError sdk
                                         ''actor.sign_transaction_stellar'')))))
       \<and> (\<forall>tx \<in> set (builtTransactions (trace s')).
             lastFetchedSequence w (trace s') = Some (RpcSequence (txSequence tx - 1)))
       \<and> (\<forall>x \<in> set (lockedXdrs (trace s')).
             \<exists>tx \<in> set (builtTransactions (trace s')).
               prepareTransaction w (rpcUrl (getBridgeConfig net)) tx = Inr x)"
proof (cases "truthy (validateBridgeParams params)")
  case True
  then show ?thesis using run
    by (auto simp add: attempt_def executeBridgeTransaction_def Let_def io_simps observers)
next
  case False
  show ?thesis
  proof (cases actor)
    case None
    then show ?thesis using run False
      by (auto simp add: attempt_def executeBridgeTransaction_def Let_def io_simps observers
            lastFetchedSequence_def messageOrError_Cons
            split: prod.splits sum.splits if_splits
            dest!: getAccountData_trace buildStellarTransaction_run)
  next
    case (Some a)
    then show ?thesis using run False
      by (auto simp add: attempt_def executeBridgeTransaction_def Let_def io_simps observers
            lastFetchedSequence_def messageOrError_Cons
            split: prod.splits sum.splits if_splits
            dest!: getAccountData_trace buildStellarTransaction_run signAndSubmit_run)
  qed
qed

section \<open>The scenario, run\<close>

lemmas scenario_defs = scenarioRequest_def scenarioSdk_def scenarioWorld_def releasingActor_def
  stallingActor_def freshWindow_def scenarioBuilt_def scenarioXdr_def scenarioUser_def
  scenarioBridge_def scenarioNative_def

lemmas run_defs = attemptTrace_def outcome_def attempt_def executeBridgeTransaction_def
  getAccountData_def buildStellarTransaction_def createLockTransactionXDR_def lockStage_def
  releaseStage_def signAndSubmit_def validateAddress_def newAddress_def
  newStellarBridgeService_def buildLockTransaction_def buildTransaction_def getBridgeConfig_def
  accountUrl_def transactionUrl_def truthy_def orElse_def progressEvents_def Let_def

lemma trim_reply: "trim '' 0xabc '' = ''0xabc''"
  by (simp add: trim_def isWhiteSpace_def)

lemma releasing_trace:
  "attemptTrace True scenarioSdk scenarioWorld scenarioRequest ''stellar-testnet''
     (Some releasingActor) freshWindow =
   [Progress 10, Progress 25, Progress 30,
    HorizonAccountFetch (''https://horizon-testnet.stellar.org/accounts/'' @ scenarioUser),
    Progress 40,
    RpcGetNetwork ''https://soroban-testnet.stellar.org'',
    RpcGetAccount ''https://soroban-testnet.stellar.org'' scenarioUser,
    RpcPrepareTransaction ''https://soroban-testnet.stellar.org'' scenarioBuilt,
    Progress 30, StellarUserLockTxn scenarioXdr ''testnet'', Progress 40,
    HorizonTransactionFetch ''https://horizon-testnet.stellar.org/transactions/lockhash'',
    Progress 50, Wait 8000, FetchStellarEvents (Some 42) ''17000'',
    Progress 70, Progress 90, Progress 100, Progress 25]"
  by (simp add: run_defs io_simps scenario_defs validateBridgeParams_def numberFalsy_def hexChars
        toBytes_17000 trim_reply releaseHashPresent_def)



lemma releasing_success:
  "map_sum id success
     (outcome True scenarioSdk scenarioWorld scenarioRequest ''stellar-testnet''
        (Some releasingActor) freshWindow) = Inr True"
  by (simp add: run_defs io_simps scenario_defs validateBridgeParams_def numberFalsy_def hexChars
        toBytes_17000 trim_reply)



section \<open>The orchestrator's calls\<close>



text \<open>
  C2. The progress values of a successful attempt should never decrease and should end at
  100. In the scenario, where lock, ledger lookup and release all succeed, the attempt
  returns a success and the observer receives 10, 25, 30, 40, 30, 40, 50, 70, 90, 100, 25:
  the values fall back twice and the last one is 25.
\<close>

theorem progress_falls_back_after_completion:
  "map_sum id success
     (outcome True scenarioSdk scenarioWorld scenarioRequest ''stellar-testnet''
        (Some releasingActor) freshWindow) = Inr True
   \<and> progressValues (attemptTrace True scenarioSdk scenarioWorld scenarioRequest
                       ''stellar-testnet'' (Some releasingActor) freshWindow)
      = [10, 25, 30, 40, 30, 40, 50, 70, 90, 100, 25]
   \<and> \<not> sorted (progressValues (attemptTrace True scenarioSdk scenarioWorld scenarioRequest
                       ''stellar-testnet'' (Some releasingActor) freshWindow))
   \<and> last (progressValues (attemptTrace True scenarioSdk scenarioWorld scenarioRequest
                       ''stellar-testnet'' (Some releasingActor) freshWindow)) = 25"
  by (simp add: releasing_success releasing_trace progressValues_def List.map_filter_simps)




text \<open>
  C8, as amended. The transaction that the builder assembles and hands to the ledger's
  prepare step is built on the account returned by the most recent account fetch of the
  attempt, the \<open>getAccount\<close> of the RPC server and not the earlier Horizon read: its
  sequence number is the sequence number that fetch returned plus one. Every XDR handed to
  the custodial signer is what the prepare step returned for that transaction.
\<close>

theorem built_sequence_is_latest_fetched_plus_one:
  "(\<forall>tx \<in> set (builtTransactions (attemptTrace observer sdk w params net actor win)).
      \<exists>n. lastFetchedSequence w (attemptTrace observer sdk w params net actor win)
             = Some (RpcSequence n)
         \<and> txSequence tx = n + 1)
   \<and> (\<forall>x \<in> set (lockedXdrs (attemptTrace observer sdk w params net actor win)).
        \<exists>tx \<in> set (builtTransactions (attemptTrace observer sdk w params net actor win)).
          prepareTransaction w (rpcUrl (getBridgeConfig net)) tx = Inr x)"
proof -
  obtain r s' where run: "attempt observer sdk w params net actor win = (r, s')"
    by fastforce
  have tr: "attemptTrace observer sdk w params net actor win = trace s'"
    by (simp add: attemptTrace_def run)
  have "\<exists>n. lastFetchedSequence w (trace s') = Some (RpcSequence n) \<and> txSequence tx = n + 1"
    if "tx \<in> set (builtTransactions (trace s'))" for tx
  proof -
    from attempt_facts [OF run] that
    have "lastFetchedSequence w (trace s') = Some (RpcSequence (txSequence tx - 1))"
      by blast
    then show ?thesis by simp
  qed
  moreover from attempt_facts [OF run]
  have "\<forall>x \<in> set (lockedXdrs (trace s')).
          \<exists>tx \<in> set (builtTransactions (trace s')).
            prepareTransaction w (rpcUrl (getBridgeConfig net)) tx = Inr x"
    by blast
  ultimately show ?thesis unfolding tr by blast
qed

theorem built_sequence_is_latest_fetched_plus_one_witness:
  "scenarioBuilt \<in> set (builtTransactions (attemptTrace True scenarioSdk scenarioWorld
        scenarioRequest ''stellar-testnet'' (Some releasingActor) freshWindow))
   \<and> fetchedSequences scenarioWorld (attemptTrace True scenarioSdk scenarioWorld
        scenarioRequest ''stellar-testnet'' (Some releasingActor) freshWindow)
      = [HorizonSequence ''100'', RpcSequence 101]
   \<and> txSequence scenarioBuilt = 101 + 1"
proof -
  have built: "scenarioBuilt \<in> set (builtTransactions (attemptTrace True scenarioSdk
        scenarioWorld scenarioRequest ''stellar-testnet'' (Some releasingActor) freshWindow))"
    by (simp add: releasing_trace observers)
  have fetched: "fetchedSequences scenarioWorld (attemptTrace True scenarioSdk scenarioWorld
        scenarioRequest ''stellar-testnet'' (Some releasingActor) freshWindow)
      = [HorizonSequence ''100'', RpcSequence 101]"
    by (simp add: releasing_trace observers) (simp add: scenarioWorld_def observers)
  then have last: "lastFetchedSequence scenarioWorld (attemptTrace True scenarioSdk
        scenarioWorld scenarioRequest ''stellar-testnet'' (Some releasingActor) freshWindow)
      = Some (RpcSequence 101)"
    by (simp add: lastFetchedSequence_def)
  obtain n where "lastFetchedSequence scenarioWorld (attemptTrace True scenarioSdk
        scenarioWorld scenarioRequest ''stellar-testnet'' (Some releasingActor) freshWindow)
      = Some (RpcSequence n)" and "txSequence scenarioBuilt = n + 1"
    using built_sequence_is_latest_fetched_plus_one
            [of True scenarioSdk scenarioWorld scenarioRequest "''stellar-testnet''"
                "Some releasingActor" freshWindow]
          built
    by blast
  then have "txSequence scenarioBuilt = 101 + 1" using last by simp
  then show ?thesis using built fetched by simp
qed

theorem built_sequence_differs_from_fetched_counterexample:
  "lastFetchedSequence scenarioWorld (attemptTrace True scenarioSdk scenarioWorld
        scenarioRequest ''stellar-testnet'' (Some releasingActor) freshWindow)
     = Some (RpcSequence 101)
   \<and> map txSequence (builtTransactions (attemptTrace True scenarioSdk scenarioWorld
        scenarioRequest ''stellar-testnet'' (Some releasingActor) freshWindow)) = [102]"
  by (simp add: releasing_trace observers lastFetchedSequence_def)
     (simp add: scenarioWorld_def scenarioBuilt_def observers)

text \<open>
  C5. When \<open>validateBridgeParams\<close> returns a message, \<open>executeBridgeTransaction\<close> throws
  that message and makes no call: the trace of the attempt is empty, so there is no account
  fetch, no ledger RPC and no backend call. Every request with an amount that is at most
  0, and every request whose recipient address does not match the EVM pattern, is such a
  request.
\<close>

theorem validation_error_before_any_call:
  "(validateBridgeParams params = Some e \<longrightarrow>
      attempt observer sdk w params net actor win
        = (Inl (Error e), \<lparr> trace = [], window = win \<rparr>))
   \<and> (numberLeZero (amount params) \<longrightarrow> validateBridgeParams params \<noteq> None)
   \<and> (\<not> matchesEvmAddress (recipientAddress params) \<longrightarrow> validateBridgeParams params \<noteq> None)"
proof -
  have "attempt observer sdk w params net actor win
          = (Inl (Error e), \<lparr> trace = [], window = win \<rparr>)"
    if "validateBridgeParams params = Some e"
    using that validate_message_nonempty [OF that]
    by (simp add: attempt_def executeBridgeTransaction_def Let_def truthy_def orElse_def
          io_simps)
  moreover have "validateBridgeParams params \<noteq> None" if "numberLeZero (amount params)"
    using that by (simp add: validateBridgeParams_def)
  moreover have "validateBridgeParams params \<noteq> None"
    if "\<not> matchesEvmAddress (recipientAddress params)"
    using that by (simp add: validateBridgeParams_def)
  ultimately show ?thesis by blast
qed

theorem validation_error_before_any_call_witness:
  "validateBridgeParams badRecipientRequest
     = Some ''Invalid recipient address format for Holsky Testnet''
   \<and> attempt True scenarioSdk scenarioWorld badRecipientRequest ''stellar-testnet''
        (Some releasingActor) freshWindow
     = (Inl (Error ''Invalid recipient address format for Holsky Testnet''),
        \<lparr> trace = [], window = freshWindow \<rparr>)
   \<and> numberLeZero (amount zeroAmountRequest)
   \<and> validateBridgeParams zeroAmountRequest \<noteq> None
   \<and> \<not> matchesEvmAddress (recipientAddress badRecipientRequest)"
proof -
  have bad: "validateBridgeParams badRecipientRequest
     = Some ''Invalid recipient address format for Holsky Testnet''"
    by (simp add: validateBridgeParams_def badRecipientRequest_def scenarioRequest_def scenarioUser_def
          numberFalsy_def)
  have zero: "numberLeZero (amount zeroAmountRequest)"
    by (simp add: zeroAmountRequest_def scenarioRequest_def scenarioUser_def)
  have shape: "\<not> matchesEvmAddress (recipientAddress badRecipientRequest)"
    by (simp add: badRecipientRequest_def scenarioRequest_def scenarioUser_def)
  have "attempt True scenarioSdk scenarioWorld badRecipientRequest ''stellar-testnet''
        (Some releasingActor) freshWindow
     = (Inl (Error ''Invalid recipient address format for Holsky Testnet''),
        \<lparr> trace = [], window = freshWindow \<rparr>)"
    using validation_error_before_any_call
            [of badRecipientRequest "''Invalid recipient address format for Holsky Testnet''"
                True scenarioSdk scenarioWorld "''stellar-testnet''" "Some releasingActor"
                freshWindow]
          bad
    by blast
  moreover have "validateBridgeParams zeroAmountRequest \<noteq> None"
    using validation_error_before_any_call [of zeroAmountRequest] zero by blast
  ultimately show ?thesis using bad zero shape by simp
qed

text \<open>
  C4. A request whose destination token and chain do not agree with the static
  whitelist should fail validation, before config resolution and before any network call.
  For the request with token \<open>HOLSKEY\<close> and chain \<open>8453\<close> the whitelist of
  \<open>getSupportedTokens\<close> lists no such pair, yet the validator returns no error and the
  attempt goes on to four network calls.
\<close>

theorem validate_accepts_holskey_on_base:
  "\<not> whitelistConsistent (destToken holskeyOnBaseRequest) (destChain holskeyOnBaseRequest)
   \<and> validateBridgeParams holskeyOnBaseRequest = None
   \<and> length (filter isNetworkCall
         (attemptTrace True scenarioSdk scenarioWorld holskeyOnBaseRequest ''stellar-testnet''
            None freshWindow)) = 4"
  by (simp add: whitelistConsistent_def getSupportedTokens_def run_defs io_simps scenario_defs
        holskeyOnBaseRequest_def validateBridgeParams_def numberFalsy_def hexChars toBytes_8453)

end
